theory Spec2Isabelle
  imports Main "HOL-Library.Word"
begin

unbundle bit_operations_syntax

section \<open>Memory-dependency tracker (gpu::VirtualGPU::MemoryDependency)\<close>

text \<open>
  One tracked range, as \<open>MemoryState\<close> in the source: the start and end address of the
  access (64-bit unsigned) and whether the access was read-only.
\<close>

record MemoryState =
  rangeStart :: "64 word"
  rangeEnd :: "64 word"
  readOnly :: bool

text \<open>The part of \<open>gpu::Memory\<close> that \<open>validate\<close> reads: \<open>hbOffset()\<close> and \<open>hbSize()\<close>.\<close>

record Memory =
  hbOffset :: "64 word"
  hbSize :: "64 word"

text \<open>
  The tracker: the array \<open>memObjectsInQueue_\<close> (allocated by \<open>create\<close> with
  \<open>maxMemObjectsInQueue_\<close> slots), the boundary \<open>endMemObjectsInQueue_\<close> of the entries of
  already dispatched kernels, and the count \<open>numMemObjectsInQueue_\<close>.
\<close>

record MemoryDependency =
  memObjectsInQueue :: "MemoryState list"
  endMemObjectsInQueue :: nat
  numMemObjectsInQueue :: nat
  maxMemObjectsInQueue :: nat

datatype tracker_error = OutOfBounds nat

definition zeroState :: MemoryState where
  "zeroState = \<lparr>rangeStart = 0, rangeEnd = 0, readOnly = False\<rparr>"

text \<open>
  \<open>create(numMemObj)\<close> on a freshly constructed tracker (all counters zero, no array):
  a positive \<open>numMemObj\<close> allocates and zeroes the array and records the capacity.
\<close>

definition create :: "nat \<Rightarrow> MemoryDependency" where
  "create numMemObj =
     (if numMemObj > 0
      then \<lparr>memObjectsInQueue = replicate numMemObj zeroState,
            endMemObjectsInQueue = 0, numMemObjectsInQueue = 0,
            maxMemObjectsInQueue = numMemObj\<rparr>
      else \<lparr>memObjectsInQueue = [],
            endMemObjectsInQueue = 0, numMemObjectsInQueue = 0,
            maxMemObjectsInQueue = 0\<rparr>)"

text \<open>
  The test of \<open>validate\<close>'s loop body on one busy entry: the three address comparisons
  and the read-only exemption.
\<close>

definition busyHit :: "64 word \<Rightarrow> 64 word \<Rightarrow> bool \<Rightarrow> MemoryState \<Rightarrow> bool" where
  "busyHit curStart curEnd ro m =
     (let busyStart = rangeStart m; busyEnd = rangeEnd m in
      ((curStart \<ge> busyStart \<and> curStart < busyEnd) \<or>
       (curEnd > busyStart \<and> curEnd \<le> busyEnd) \<or>
       (curStart \<le> busyStart \<and> curEnd \<ge> busyEnd)) \<and>
      (\<not> readOnly m \<or> \<not> ro))"

text \<open>The loop \<open>for (j = 0; j < endMemObjectsInQueue_; ++j)\<close> with its \<open>break\<close>.\<close>

fun dependencyLoop :: "64 word \<Rightarrow> 64 word \<Rightarrow> bool \<Rightarrow> MemoryState list \<Rightarrow> bool" where
  "dependencyLoop curStart curEnd ro [] = False"
| "dependencyLoop curStart curEnd ro (m # ms) =
     (if busyHit curStart curEnd ro m then True
      else dependencyLoop curStart curEnd ro ms)"

text \<open>
  The copy loop of \<open>clear\<close>: \<open>for (i = 0, j = end; j < num; i++, j++) a[i] = a[j]\<close>.
  It returns the array and the final \<open>i\<close>.
\<close>

function preserveLoop :: "MemoryState list \<Rightarrow> nat \<Rightarrow> nat \<Rightarrow> nat \<Rightarrow> MemoryState list \<times> nat" where
  "preserveLoop a i j n =
     (if j < n then preserveLoop (a[i := a ! j]) (Suc i) (Suc j) n else (a, i))"
  by pat_completeness auto
termination
  by (relation "measure (\<lambda>(a, i, j, n). n - j)") auto

declare preserveLoop.simps [simp del]

text \<open>
  The \<open>memset\<close> of \<open>clear\<close>: \<open>memset(&memObjectsInQueue_[i], 0, sizeof(amd::Memory*) * n)\<close>
  zeroes \<open>n\<close> pointer-sized words from slot \<open>i\<close> on. \<open>MemoryState\<close> is declared outside the
  sources; on the 64-bit target a slot is three 8-byte words, in the order in which the
  source assigns the fields (\<open>start_\<close>, \<open>end_\<close>, \<open>readOnly_\<close> with its padding), and a
  pointer is one such word. So word \<open>q\<close> of the \<open>memset\<close> is field \<open>q mod 3\<close> of slot
  \<open>i + q div 3\<close>.
\<close>

definition memsetWords :: "MemoryState list \<Rightarrow> nat \<Rightarrow> nat \<Rightarrow> MemoryState list" where
  "memsetWords a i n =
     map (\<lambda>j. if j < i then a ! j
              else (a ! j)\<lparr>rangeStart := (if 3 * (j - i) < n then 0 else rangeStart (a ! j)),
                          rangeEnd := (if 3 * (j - i) + 1 < n then 0 else rangeEnd (a ! j)),
                          readOnly := (if 3 * (j - i) + 2 < n then False
                                       else readOnly (a ! j))\<rparr>)
       [0 ..< length a]"

text \<open>
  \<open>clear(all)\<close>. Reading or writing outside the allocated array is undefined behaviour in
  the source and an error here, which names the first slot outside the array that is
  touched: the copy loop reads the slots from the boundary up to the count, and the
  \<open>memset\<close> writes \<open>n\<close> words from slot \<open>i\<close> on, which stays inside the array only if
  \<open>3 * i + n\<close> is at most three times the number of slots. The counters are \<open>size_t\<close>; the subtraction wraps around
  \<open>2 ^ 64\<close> when the boundary exceeds the count.
\<close>

definition clear :: "bool \<Rightarrow> MemoryDependency \<Rightarrow> tracker_error + MemoryDependency" where
  "clear all t =
     (if numMemObjectsInQueue t > 0 then
        let n = numMemObjectsInQueue t;
            e = (if all then n else endMemObjectsInQueue t)
        in if e < n \<and> n > length (memObjectsInQueue t)
           then Inl (OutOfBounds (max e (length (memObjectsInQueue t))))
           else
             let (a, i) = preserveLoop (memObjectsInQueue t) 0 e n in
             if 3 * i + n > 3 * length a then Inl (OutOfBounds (max i (length a)))
             else Inr (t\<lparr>memObjectsInQueue := memsetWords a i n,
                         numMemObjectsInQueue := (if e \<le> n then n - e else n + 2 ^ 64 - e),
                         endMemObjectsInQueue := 0\<rparr>)
      else Inr t)"

text \<open>
  Modelled from the spec: \<open>newKernel()\<close> is declared in a header that is not among the
  sources. The spec: it is called once per kernel dispatch to advance the boundary, so
  that entries recorded so far count as belonging to already dispatched kernels.
\<close>

definition newKernel :: "MemoryDependency \<Rightarrow> MemoryDependency" where
  "newKernel t = t\<lparr>endMemObjectsInQueue := numMemObjectsInQueue t\<rparr>"

text \<open>
  \<open>validate(gpu, memory, readOnly)\<close>. The result is the flag \<open>flushL1Cache\<close> (whether
  \<open>gpu.flushL1Cache()\<close> was called) and the new tracker. Reading or writing a slot outside
  the allocated array is undefined behaviour in the source and an error here.
\<close>

definition validate ::
  "MemoryDependency \<Rightarrow> Memory \<Rightarrow> bool \<Rightarrow> tracker_error + (bool \<times> MemoryDependency)" where
  "validate t memory ro =
     (if maxMemObjectsInQueue t = 0 then Inr (False, t)
      else if endMemObjectsInQueue t > length (memObjectsInQueue t)
      then Inl (OutOfBounds (length (memObjectsInQueue t)))
      else
        let curStart = hbOffset memory;
            curEnd = curStart + hbSize memory;
            found = dependencyLoop curStart curEnd ro
                      (take (endMemObjectsInQueue t) (memObjectsInQueue t));
            flushL1Cache = (found \<or> maxMemObjectsInQueue t \<le> numMemObjectsInQueue t + 1)
        in case (if flushL1Cache then clear False t else Inr t) of
             Inl err \<Rightarrow> Inl err
           | Inr t1 \<Rightarrow>
               (let k = numMemObjectsInQueue t1 in
                if k < length (memObjectsInQueue t1)
                then Inr (flushL1Cache,
                          t1\<lparr>memObjectsInQueue := (memObjectsInQueue t1)
                                [k := \<lparr>rangeStart = curStart, rangeEnd = curEnd,
                                      readOnly = ro\<rparr>],
                              numMemObjectsInQueue := Suc k\<rparr>)
                else Inl (OutOfBounds k)))"

section \<open>Statements of the specification, for comparison with the code\<close>

text \<open>The entries the tracker holds: the first \<open>numMemObjectsInQueue_\<close> slots of the array.\<close>

definition trackedEntries :: "MemoryDependency \<Rightarrow> MemoryState list" where
  "trackedEntries t = take (numMemObjectsInQueue t) (memObjectsInQueue t)"

text \<open>
  The counters lie inside the allocated array: boundary \<open>\<le>\<close> count \<open>\<le>\<close> capacity, and the
  array has as many slots as \<open>create\<close> allocated.
\<close>

definition wellFormed :: "MemoryDependency \<Rightarrow> bool" where
  "wellFormed t \<longleftrightarrow>
     endMemObjectsInQueue t \<le> numMemObjectsInQueue t \<and>
     numMemObjectsInQueue t \<le> maxMemObjectsInQueue t \<and>
     length (memObjectsInQueue t) = maxMemObjectsInQueue t"

text \<open>
  The specification's hazard between a new access and a tracked entry: the half-open byte
  range \<open>[start, start + size)\<close> of the new access meets the entry's half-open range, and
  not both accesses are read-only.
\<close>

definition spec_hazard :: "Memory \<Rightarrow> bool \<Rightarrow> MemoryState \<Rightarrow> bool" where
  "spec_hazard memory ro m \<longleftrightarrow>
     {unat (hbOffset memory) ..< unat (hbOffset memory) + unat (hbSize memory)} \<inter>
     {unat (rangeStart m) ..< unat (rangeEnd m)} \<noteq> {} \<and>
     \<not> (readOnly m \<and> ro)"

text \<open>
  The specification's flush condition: a hazard with an entry recorded before the
  current-kernel boundary, or appending the new entry reaches the capacity.
\<close>

definition spec_flushRequired :: "MemoryDependency \<Rightarrow> Memory \<Rightarrow> bool \<Rightarrow> bool" where
  "spec_flushRequired t memory ro \<longleftrightarrow>
     (\<exists>j < endMemObjectsInQueue t. spec_hazard memory ro (memObjectsInQueue t ! j)) \<or>
     maxMemObjectsInQueue t \<le> numMemObjectsInQueue t + 1"

text \<open>
  The \<open>memset\<close> of \<open>clear(false)\<close> stays inside the array: there is nothing to clear, or
  the words it zeroes, counted from the first slot behind the entries kept, end inside the
  array.
\<close>

definition memsetFits :: "MemoryDependency \<Rightarrow> bool" where
  "memsetFits t \<longleftrightarrow>
     numMemObjectsInQueue t = 0 \<or>
     3 * (numMemObjectsInQueue t - endMemObjectsInQueue t) + numMemObjectsInQueue t
       \<le> 3 * maxMemObjectsInQueue t"

text \<open>The entry that \<open>validate\<close> writes for an access.\<close>

definition entryOf :: "Memory \<Rightarrow> bool \<Rightarrow> MemoryState" where
  "entryOf memory ro =
     \<lparr>rangeStart = hbOffset memory, rangeEnd = hbOffset memory + hbSize memory, readOnly = ro\<rparr>"

text \<open>A sequence of calls on the tracker, stopping at the first out-of-bounds access.\<close>

datatype trackerCall = Validate Memory bool | NewKernel | Clear bool

fun call :: "MemoryDependency \<Rightarrow> trackerCall \<Rightarrow> tracker_error + MemoryDependency" where
  "call t (Validate memory ro) =
     (case validate t memory ro of Inl e \<Rightarrow> Inl e | Inr (f, t') \<Rightarrow> Inr t')"
| "call t NewKernel = Inr (newKernel t)"
| "call t (Clear all) = clear all t"

fun calls :: "MemoryDependency \<Rightarrow> trackerCall list \<Rightarrow> tracker_error + MemoryDependency" where
  "calls t [] = Inr t"
| "calls t (c # cs) = (case call t c of Inl e \<Rightarrow> Inl e | Inr t' \<Rightarrow> calls t' cs)"

section \<open>Managed staging buffer (pal::ManagedBuffer)\<close>

text \<open>
  One slab of the pool, the part of \<open>pal::Memory\<close> that \<open>ManagedBuffer\<close> uses: the GPU
  virtual address \<open>vmAddress()\<close>, the host address \<open>data()\<close> of the mapping, and whether an
  earlier GPU submission that used the slab is still recorded on it.
\<close>

record Slab =
  vmAddress :: "64 word"
  data :: "64 word"
  busy :: bool

text \<open>
  Modelled from the spec: \<open>Memory::wait\<close> is defined outside the sources. The spec: a
  resource tracks its outstanding GPU events and \<open>wait\<close> returns once they are resolved,
  so after the call no earlier GPU work on the resource is in flight.
\<close>

definition wait :: "Slab \<Rightarrow> Slab" where
  "wait b = b\<lparr>busy := False\<rparr>"

text \<open>
  Modelled from the spec: \<open>amd::alignUp\<close> is defined outside the sources. The spec: it
  aligns the size up to the alignment. The result is again 32 bits wide.
\<close>

definition alignUp :: "32 word \<Rightarrow> 32 word \<Rightarrow> 32 word" where
  "alignUp v a = word_of_nat (((unat v + unat a - 1) div unat a) * unat a)"

definition MemAlignment :: "32 word" where
  "MemAlignment = 256"

text \<open>
  The fields of \<open>ManagedBuffer\<close>, and \<open>waited\<close>: the slabs \<open>reserve\<close> has called \<open>wait\<close>
  on, oldest first.
\<close>

record ManagedBuffer =
  buffers :: "Slab list"
  activeBuffer :: nat
  sizeBytes :: "32 word"
  wrtOffset :: "32 word"
  wrtAddress :: "64 word"
  waited :: "nat list"

datatype buffer_error = BadSlabIndex nat | NoSlabs

text \<open>
  The constructor followed by a successful \<open>create\<close>: the pool holds the given slabs
  (\<open>MaxNumberOfBuffers\<close> of them), the first one is active and the cursor is at its start.
\<close>

definition newManagedBuffer :: "Slab list \<Rightarrow> 32 word \<Rightarrow> buffer_error + ManagedBuffer" where
  "newManagedBuffer slabs sz =
     (case slabs of
        [] \<Rightarrow> Inl NoSlabs
      | b # bs \<Rightarrow> Inr \<lparr>buffers = slabs, activeBuffer = 0, sizeBytes = sz, wrtOffset = 0,
                       wrtAddress = data b, waited = []\<rparr>)"

text \<open>
  \<open>reserve(size, &gpu_address)\<close>. The constant \<open>MaxNumberOfBuffers\<close> is declared outside the
  sources and is a parameter here. The result is the returned CPU address, the GPU address
  stored through the pointer, and the new state. Indexing \<open>buffers_\<close> out of range and the
  remainder by zero are undefined in the source and errors here.
\<close>

definition reserve ::
  "nat \<Rightarrow> ManagedBuffer \<Rightarrow> 32 word \<Rightarrow> buffer_error + (64 word \<times> 64 word \<times> ManagedBuffer)" where
  "reserve MaxNumberOfBuffers mb sz =
     (let count = alignUp sz MemAlignment in
      if wrtOffset mb + count > sizeBytes mb then
        if MaxNumberOfBuffers = 0 then Inl NoSlabs
        else
          let active = (activeBuffer mb + 1) mod MaxNumberOfBuffers in
          if active \<ge> length (buffers mb) then Inl (BadSlabIndex active)
          else
            let b = wait (buffers mb ! active);
                mb1 = mb\<lparr>activeBuffer := active,
                         buffers := (buffers mb)[active := b],
                         waited := waited mb @ [active],
                         wrtAddress := data b,
                         wrtOffset := 0\<rparr>
            in Inr (wrtAddress mb1 + ucast (wrtOffset mb1),
                    vmAddress b + ucast (wrtOffset mb1),
                    mb1\<lparr>wrtOffset := wrtOffset mb1 + count\<rparr>)
      else if activeBuffer mb \<ge> length (buffers mb) then Inl (BadSlabIndex (activeBuffer mb))
      else
        Inr (wrtAddress mb + ucast (wrtOffset mb),
             vmAddress (buffers mb ! activeBuffer mb) + ucast (wrtOffset mb),
             mb\<lparr>wrtOffset := wrtOffset mb + count\<rparr>))"

text \<open>The aligned size as a number: the least multiple of 256 that is at least the size.\<close>

definition spec_alignedSize :: "32 word \<Rightarrow> nat" where
  "spec_alignedSize sz = ((unat sz + 255) div 256) * 256"

text \<open>
  The state of a pool between calls: it holds \<open>MaxNumberOfBuffers\<close> slabs, the active index
  is one of them, \<open>wrtAddress_\<close> is the mapping of the active slab, and the cursor is a
  multiple of the alignment.
\<close>

definition poolInvariant :: "nat \<Rightarrow> ManagedBuffer \<Rightarrow> bool" where
  "poolInvariant MaxNumberOfBuffers mb \<longleftrightarrow>
     0 < MaxNumberOfBuffers \<and>
     length (buffers mb) = MaxNumberOfBuffers \<and>
     activeBuffer mb < MaxNumberOfBuffers \<and>
     wrtAddress mb = data (buffers mb ! activeBuffer mb) \<and>
     256 dvd unat (wrtOffset mb)"

text \<open>Three slabs, two of them with GPU work recorded, for a pool of 4 KiB slabs.\<close>

definition threeSlabs :: "Slab list" where
  "threeSlabs =
     [\<lparr>vmAddress = 0x100000, data = 0x7000000, busy = True\<rparr>,
      \<lparr>vmAddress = 0x200000, data = 0x7100000, busy = True\<rparr>,
      \<lparr>vmAddress = 0x300000, data = 0x7200000, busy = False\<rparr>]"

definition smallPool :: ManagedBuffer where
  "smallPool = \<lparr>buffers = threeSlabs, activeBuffer = 0, sizeBytes = 4096, wrtOffset = 3840,
                wrtAddress = 0x7000000, waited = []\<rparr>"

text \<open>A fresh pool with slabs of \<open>0xFFFFFF00\<close> bytes.\<close>

definition freshHugePool :: ManagedBuffer where
  "freshHugePool = \<lparr>buffers = threeSlabs, activeBuffer = 0, sizeBytes = 0xFFFFFF00,
                    wrtOffset = 0, wrtAddress = 0x7000000, waited = []\<rparr>"

text \<open>
  A pool with slabs of \<open>0xFFFFFF00\<close> bytes after one reservation of \<open>0xFFFFFE00\<close> bytes:
  the cursor is 512 bytes below \<open>2 ^ 32\<close>.
\<close>

definition hugePool :: ManagedBuffer where
  "hugePool = \<lparr>buffers = threeSlabs, activeBuffer = 0, sizeBytes = 0xFFFFFF00,
               wrtOffset = 0xFFFFFE00, wrtAddress = 0x7000000, waited = []\<rparr>"

section \<open>Command batches and their resolution (gpu::VirtualGPU)\<close>

text \<open>The OpenCL execution status codes and error codes that the queue uses.\<close>

definition CL_COMPLETE :: int where "CL_COMPLETE = 0"
definition CL_RUNNING :: int where "CL_RUNNING = 1"
definition CL_SUBMITTED :: int where "CL_SUBMITTED = 2"
definition CL_QUEUED :: int where "CL_QUEUED = 3"
definition CL_OUT_OF_RESOURCES :: int where "CL_OUT_OF_RESOURCES = - 5"
definition CL_MAP_FAILURE :: int where "CL_MAP_FAILURE = - 12"
definition CL_INVALID_VALUE :: int where "CL_INVALID_VALUE = - 30"
definition CL_INVALID_OPERATION :: int where "CL_INVALID_OPERATION = - 59"

text \<open>
  The part of \<open>amd::Command\<close> that batch resolution reads and writes: an identity (the
  object's address in the source), the execution status, and whether profiling is enabled.
\<close>

record Command =
  cmdId :: nat
  status :: int
  profilingEnabled :: bool

text \<open>
  Modelled from the spec: \<open>amd::Command::setStatus\<close> is defined outside the sources. The
  spec: a command goes \<open>SUBMITTED \<rightarrow> RUNNING \<rightarrow> COMPLETE\<close> and no command regresses state,
  and an error is recorded as the command's status. So the status only moves towards
  completion (the codes decrease), and a command that is complete or has failed keeps its
  status.
\<close>

definition setStatus :: "Command \<Rightarrow> int \<Rightarrow> Command" where
  "setStatus c s =
     (if status c \<le> CL_COMPLETE \<or> status c \<le> s then c else c\<lparr>status := s\<rparr>)"

text \<open>
  Modelled from the spec: \<open>GpuEvent\<close> is declared outside the sources. The spec: an engine
  id, a raw id and a valid flag; \<open>invalidate\<close> makes the event invalid.
\<close>

record GpuEvent =
  engine_id :: nat
  raw_id :: nat
  valid_flag :: bool

definition isValid :: "GpuEvent \<Rightarrow> bool" where
  "isValid e = valid_flag e"

definition invalidate :: "GpuEvent \<Rightarrow> GpuEvent" where
  "invalidate e = e\<lparr>valid_flag := False\<rparr>"

text \<open>
  \<open>CommandBatch\<close>: the linked list of commands (\<open>head_\<close> and the commands reached from it
  by \<open>getNext\<close>), the per-engine events saved at creation, and the last timestamp object.
  A batch is only created for a non-null list.
\<close>

record CommandBatch =
  head :: Command
  followers :: "Command list"
  events :: "GpuEvent list"
  lastTS :: "nat option"

datatype logEntry = UnexpectedCommandStatus int

text \<open>
  What resolving one batch did: the commands of the batch after the walk, the events that
  \<open>waitEventLock\<close> waited for, and the errors logged.
\<close>

record Resolution =
  resolvedCommands :: "Command list"
  waitedEvents :: "GpuEvent list"
  logged :: "logEntry list"

text \<open>
  The walk over the command list, shared by \<open>awaitCompletion\<close> and
  \<open>profilingCollectResults\<close> (whose time stamps are not modelled). It returns the commands,
  the errors logged and whether the waiting event was among the commands. The last branch
  of the source logs only when the command has a successor.
\<close>

fun completeCommands :: "Command list \<Rightarrow> nat option \<Rightarrow> Command list \<times> logEntry list \<times> bool" where
  "completeCommands [] waitingEvent = ([], [], False)"
| "completeCommands (c # cs) waitingEvent =
     (let (c', l) =
        (if status c = CL_SUBMITTED
         then (setStatus (setStatus c CL_RUNNING) CL_COMPLETE, [])
         else if status c = CL_RUNNING
         then (setStatus c CL_COMPLETE, [])
         else if status c \<noteq> CL_COMPLETE \<and> cs \<noteq> []
         then (c, [UnexpectedCommandStatus (status c)])
         else (c, []));
          (cs', ls, found) = completeCommands cs waitingEvent
      in (c' # cs', l @ ls, waitingEvent = Some (cmdId c) \<or> found))"

definition profilingCollectResults :: "CommandBatch \<Rightarrow> nat option \<Rightarrow> bool \<times> Resolution" where
  "profilingCollectResults cb waitingEvent =
     (let (cs, ls, found) = completeCommands (head cb # followers cb) waitingEvent
      in (found, \<lparr>resolvedCommands = cs, waitedEvents = events cb, logged = ls\<rparr>))"

text \<open>
  \<open>awaitCompletion(cb, waitingEvent)\<close>: with profiling the work is done by
  \<open>profilingCollectResults\<close>; otherwise the first command is marked running,
  \<open>waitEventLock\<close> waits for the events of the batch, and the list is walked.
\<close>

definition awaitCompletion :: "CommandBatch \<Rightarrow> nat option \<Rightarrow> bool \<times> Resolution" where
  "awaitCompletion cb waitingEvent =
     (if profilingEnabled (head cb) then profilingCollectResults cb waitingEvent
      else
        let h = setStatus (head cb) CL_RUNNING;
            (cs, ls, found) = completeCommands (h # followers cb) waitingEvent
        in (found, \<lparr>resolvedCommands = cs, waitedEvents = events cb, logged = ls\<rparr>))"

text \<open>
  The state of the queue that \<open>flush\<close> and \<open>submitMarker\<close> use: the last event per engine
  (\<open>cal_.events_\<close>), the last timestamp object (\<open>cal_.lastTS_\<close>), the FIFO of batches
  (\<open>cbList_\<close>), the flag \<open>state_.forceWait_\<close>, and \<open>resolved\<close>: the resolutions done so
  far, oldest first.
\<close>

record VirtualGPU =
  cal_events :: "GpuEvent list"
  cal_lastTS :: "nat option"
  cbList :: "CommandBatch list"
  forceWait :: bool
  resolved :: "Resolution list"

text \<open>
  The loop of \<open>flush\<close> over the outstanding batches. \<open>isDone\<close> is the hardware's answer for
  an event. It returns the batches left in the FIFO and the resolutions done.
\<close>

fun resolveOutstanding ::
  "(GpuEvent \<Rightarrow> bool) \<Rightarrow> bool \<Rightarrow> CommandBatch list \<Rightarrow> CommandBatch list \<times> Resolution list" where
  "resolveOutstanding isDone blocking [] = ([], [])"
| "resolveOutstanding isDone blocking (cb # rest) =
     (let finished = list_all isDone (events cb) in
      if finished \<or> blocking
      then (let (left, rs) = resolveOutstanding isDone blocking rest
            in (left, snd (awaitCompletion cb None) # rs))
      else (cb # rest, []))"

text \<open>
  \<open>flush(list, wait)\<close>; an empty \<open>list\<close> stands for the null pointer, and the argument
  \<open>wait\<close> is called \<open>blocking\<close> here. \<open>flushDMA\<close> only queries the hardware about the
  engine's event.
\<close>

definition flush :: "(GpuEvent \<Rightarrow> bool) \<Rightarrow> Command list \<Rightarrow> bool \<Rightarrow> VirtualGPU \<Rightarrow> VirtualGPU" where
  "flush isDone list blocking s =
     (let gpuCommand = list_ex isValid (cal_events s);
          s1 = (if \<not> gpuCommand \<and> cbList s = [] then s\<lparr>forceWait := True\<rparr> else s);
          cb = (case list of
                  [] \<Rightarrow> []
                | c # cs \<Rightarrow> [\<lparr>head = c, followers = cs, events = cal_events s1,
                              lastTS = cal_lastTS s1\<rparr>]);
          s2 = s1\<lparr>cal_events := map invalidate (cal_events s1), cal_lastTS := None\<rparr>;
          s3 = s2\<lparr>cbList := cbList s2 @ cb\<rparr>;
          blocking' = (blocking \<or> forceWait s3);
          (left, rs) = resolveOutstanding isDone blocking' (cbList s3)
      in s3\<lparr>cbList := left, resolved := resolved s3 @ rs, forceWait := False\<rparr>)"

text \<open>
  The loop of \<open>submitMarker\<close>: resolve batches from the front until the waiting event is
  found. It returns the batches left, the resolutions done and whether the event was found.
\<close>

fun resolveUntilFound ::
  "nat option \<Rightarrow> CommandBatch list \<Rightarrow> CommandBatch list \<times> Resolution list \<times> bool" where
  "resolveUntilFound waitingEvent [] = ([], [], False)"
| "resolveUntilFound waitingEvent (cb # rest) =
     (let (found, r) = awaitCompletion cb waitingEvent in
      if found then (rest, [r], True)
      else (let (left, rs, f) = resolveUntilFound waitingEvent rest in (left, r # rs, f)))"

text \<open>\<open>submitMarker(vcmd)\<close>, with \<open>vcmd.waitingEvent()\<close> as its argument.\<close>

definition submitMarker :: "nat option \<Rightarrow> VirtualGPU \<Rightarrow> VirtualGPU" where
  "submitMarker waitingEvent s =
     (case waitingEvent of
        None \<Rightarrow> s
      | Some w \<Rightarrow>
          (let (left, rs, foundEvent) = resolveUntilFound waitingEvent (cbList s);
               s1 = s\<lparr>cbList := left, resolved := resolved s @ rs\<rparr>
           in if \<not> foundEvent then s1\<lparr>forceWait := True\<rparr> else s1))"

text \<open>The batches that \<open>flush\<close> has in its FIFO after inserting the current one.\<close>

definition batchesAtFlush :: "Command list \<Rightarrow> VirtualGPU \<Rightarrow> CommandBatch list" where
  "batchesAtFlush list s =
     cbList s @
     (case list of
        [] \<Rightarrow> []
      | c # cs \<Rightarrow> [\<lparr>head = c, followers = cs, events = cal_events s, lastTS = cal_lastTS s\<rparr>])"

text \<open>Whether all events of a batch are done, as \<open>flush\<close> asks the hardware.\<close>

definition batchFinished :: "(GpuEvent \<Rightarrow> bool) \<Rightarrow> CommandBatch \<Rightarrow> bool" where
  "batchFinished isDone cb = list_all isDone (events cb)"

text \<open>The resolution of a batch by \<open>flush\<close>.\<close>

definition resolutionOf :: "CommandBatch \<Rightarrow> Resolution" where
  "resolutionOf cb = snd (awaitCompletion cb None)"

text \<open>
  The batches that one call of \<open>flush\<close> resolves: all of them when it waits (asked to, or
  forced by the flag, or because the queue was idle), otherwise the longest prefix of
  finished batches.
\<close>

definition flushResolved ::
  "(GpuEvent \<Rightarrow> bool) \<Rightarrow> Command list \<Rightarrow> bool \<Rightarrow> VirtualGPU \<Rightarrow> CommandBatch list" where
  "flushResolved isDone list blocking s =
     (if blocking \<or> forceWait s \<or> (\<not> list_ex isValid (cal_events s) \<and> cbList s = [])
      then batchesAtFlush list s
      else takeWhile (batchFinished isDone) (batchesAtFlush list s))"

text \<open>
  The commands of a batch as the walk of the non-profiled \<open>awaitCompletion\<close> finds them:
  the first one has been marked running before the wait.
\<close>

definition commandsAtWalk :: "CommandBatch \<Rightarrow> Command list" where
  "commandsAtWalk cb = setStatus (head cb) CL_RUNNING # followers cb"

text \<open>A status that the walk does not expect: not submitted, running or complete.\<close>

definition unexpectedStatus :: "Command \<Rightarrow> bool" where
  "unexpectedStatus c \<longleftrightarrow>
     status c \<noteq> CL_SUBMITTED \<and> status c \<noteq> CL_RUNNING \<and> status c \<noteq> CL_COMPLETE"

text \<open>Concrete events, commands, batches and queues.\<close>

definition doneEvent :: GpuEvent where
  "doneEvent = \<lparr>engine_id = 0, raw_id = 5, valid_flag = True\<rparr>"

definition pendingEvent :: GpuEvent where
  "pendingEvent = \<lparr>engine_id = 0, raw_id = 20, valid_flag = True\<rparr>"

definition noEvent :: GpuEvent where
  "noEvent = \<lparr>engine_id = 1, raw_id = 0, valid_flag = False\<rparr>"

text \<open>The hardware has completed the events with a raw id below 10.\<close>

definition doneBelow10 :: "GpuEvent \<Rightarrow> bool" where
  "doneBelow10 e = (raw_id e < 10)"

definition submittedCmd :: "nat \<Rightarrow> Command" where
  "submittedCmd n = \<lparr>cmdId = n, status = CL_SUBMITTED, profilingEnabled = False\<rparr>"

definition failedCmd :: "nat \<Rightarrow> Command" where
  "failedCmd n = \<lparr>cmdId = n, status = CL_INVALID_OPERATION, profilingEnabled = False\<rparr>"

definition batchA :: CommandBatch where
  "batchA = \<lparr>head = submittedCmd 1, followers = [submittedCmd 2],
             events = [doneEvent, noEvent], lastTS = None\<rparr>"

definition batchB :: CommandBatch where
  "batchB = \<lparr>head = submittedCmd 3, followers = [],
             events = [pendingEvent, noEvent], lastTS = None\<rparr>"

text \<open>A batch of a kernel launch followed by a read that failed at submission.\<close>

definition batchWithFailedLast :: CommandBatch where
  "batchWithFailedLast = \<lparr>head = submittedCmd 1, followers = [failedCmd 2],
             events = [doneEvent, noEvent], lastTS = None\<rparr>"

text \<open>A batch with a failed command in the middle.\<close>

definition batchWithFailedMiddle :: CommandBatch where
  "batchWithFailedMiddle = \<lparr>head = submittedCmd 1, followers = [failedCmd 2, submittedCmd 3],
             events = [doneEvent, noEvent], lastTS = None\<rparr>"

definition queueTwoBatches :: VirtualGPU where
  "queueTwoBatches = \<lparr>cal_events = [noEvent, noEvent], cal_lastTS = None,
                      cbList = [batchA, batchB], forceWait = False, resolved = []\<rparr>"

definition idleQueue :: VirtualGPU where
  "idleQueue = \<lparr>cal_events = [noEvent, noEvent], cal_lastTS = None,
                cbList = [], forceWait = False, resolved = []\<rparr>"

text \<open>What the walk does to one command.\<close>

definition completeOne :: "Command \<Rightarrow> Command" where
  "completeOne c =
     (if status c = CL_SUBMITTED then setStatus (setStatus c CL_RUNNING) CL_COMPLETE
      else if status c = CL_RUNNING then setStatus c CL_COMPLETE
      else c)"

text \<open>A hardware on which every event is done.\<close>

definition allDone :: "GpuEvent \<Rightarrow> bool" where
  "allDone e = True"

section \<open>Command submission (gpu::VirtualGPU::submit...)\<close>

text \<open>
  The submission entry points call into the device, the blit manager, the SVM manager and
  the kernel objects, all outside the sources. Their answers are parameters of the model;
  what an entry point does with an answer is taken from the source. A pointer answer is
  modelled by whether it is null. An entry point that dereferences a null pointer has
  undefined behaviour in the source and ends in a fault here. Otherwise it returns the
  command, with the status it may have set, the state of the queue, and a trace: the
  fallible operations it called, each with its answer, and the messages it logged, in
  order. Calls that return nothing (cache synchronisation, write-map bookkeeping,
  \<open>signalWrite\<close>, the release of a temporary buffer) leave no entry in the trace, and
  assertions are taken as compiled out.
\<close>

datatype cl_command_type =
  CL_COMMAND_READ_BUFFER | CL_COMMAND_READ_BUFFER_RECT | CL_COMMAND_READ_IMAGE
  | CL_COMMAND_WRITE_BUFFER | CL_COMMAND_WRITE_BUFFER_RECT | CL_COMMAND_WRITE_IMAGE
  | CL_COMMAND_COPY_BUFFER | CL_COMMAND_COPY_BUFFER_RECT | CL_COMMAND_COPY_IMAGE_TO_BUFFER
  | CL_COMMAND_COPY_BUFFER_TO_IMAGE | CL_COMMAND_COPY_IMAGE | CL_COMMAND_SVM_MEMCPY
  | CL_COMMAND_FILL_BUFFER | CL_COMMAND_FILL_IMAGE | CL_COMMAND_SVM_MEMFILL
  | CL_COMMAND_WAIT_SIGNAL_AMD | CL_COMMAND_WRITE_SIGNAL_AMD
  | CL_COMMAND_OTHER

datatype blitOp =
  CopyBuffer | ReadBuffer | CopyBufferRect | ReadBufferRect | CopyImageToBuffer | ReadImage
  | CopyBufferToImage | WriteBuffer | WriteBufferRect | WriteImage | CopyImage
  | FillBuffer | FillImage

datatype fault = NullDereference

datatype operation =
  CreateBufferFromImage | Blit blitOp | FindSvmBuffer | GetSvmMem | ValidateRegion
  | SubmitKernelInternal | WaitSignal | WriteSignal | MakeBuffersResident

text \<open>The messages that the entry points log, with the text of each in the source.\<close>

datatype message =
  BufferFromImageFailed
  | UnsupportedRead
  | ReadMemoryFailed
  | UnsupportedWrite
  | WriteMemoryFailed
  | UnsupportedCopy
  | CopyMemoryFailed
  | MapCopyFailed
  | UnhandledMap
  | UnmapCopyFailed
  | UnhandledUnmap
  | UnsupportedFill
  | FillMemoryFailed
  | WrongSvmAddress
  | SvmMapCopyFailed
  | UnhandledSvmMap
  | UnknownMigration
  | AcquireSyncFailed
  | ReleaseSyncFailed
  | NoneInteropRelease
  | SignalFailed
  | MakeBuffersResidentFailed

fun messageText :: "message \<Rightarrow> string" where
  "messageText BufferFromImageFailed = ''We should not fail buffer creation from image_buffer!''"
| "messageText UnsupportedRead = ''Unsupported type for the read command''"
| "messageText ReadMemoryFailed = ''submitReadMemory failed!''"
| "messageText UnsupportedWrite = ''Unsupported type for the write command''"
| "messageText WriteMemoryFailed = ''submitWriteMemory failed!''"
| "messageText UnsupportedCopy = ''Unsupported command type for memory copy!''"
| "messageText CopyMemoryFailed = ''submitCopyMemory failed!''"
| "messageText MapCopyFailed = ''submitMapMemory() - copy failed''"
| "messageText UnhandledMap = ''Unhandled map!''"
| "messageText UnmapCopyFailed = ''submitUnmapMemory() - copy failed''"
| "messageText UnhandledUnmap = ''Unhandled unmap!''"
| "messageText UnsupportedFill = ''Unsupported command type for FillMemory!''"
| "messageText FillMemoryFailed = ''fillMemory failed!''"
| "messageText WrongSvmAddress = ''wrong svm address ''"
| "messageText SvmMapCopyFailed = ''submitSVMMapMemory() - copy failed''"
| "messageText UnhandledSvmMap = ''Unhandled svm map!''"
| "messageText UnknownMigration = ''Unknown operation for memory migration!''"
| "messageText AcquireSyncFailed = ''submitAcquireExtObjects - Interop synchronization failed!''"
| "messageText ReleaseSyncFailed = ''submitReleaseExtObjects interop synchronization failed!''"
| "messageText NoneInteropRelease = ''None interop release!''"
| "messageText SignalFailed = ''submitSignal failed''"
| "messageText MakeBuffersResidentFailed = ''MakeBuffersResident failed''"

datatype effect = Call operation bool | LoggedError message | LoggedWarning message

text \<open>
  The answer of \<open>createBufferFromImage\<close> for a memory object: a null pointer, or a buffer,
  for which \<open>Created g\<close> tells with \<open>g\<close> whether \<open>dev().getGpuMemory\<close> finds device memory
  for it.
\<close>

datatype createdBuffer = NotCreated | Created bool

text \<open>
  An \<open>amd::Memory\<close> object as the entry points see it: whether \<open>dev().getGpuMemory\<close>
  returns device memory for it (and not a null pointer), whether its type is
  \<open>CL_MEM_OBJECT_IMAGE1D_BUFFER\<close>, and the answer of \<open>createBufferFromImage\<close> for it.
\<close>

record MemoryObject =
  gpuMemory :: bool
  isImage1DBuffer :: bool
  bufferFromImage :: createdBuffer

text \<open>
  The answers of the queue's collaborators during one submission: the result of the blit
  manager per operation, the timestamp object that \<open>tsCache_->allocTimeStamp()\<close> returns
  (if any) and whether it is valid at the end of the submission (the command did a GPU
  submission), the engine of the queue (\<open>engineID_\<close>) and the event that a kernel run
  returns.
\<close>

record Device =
  blitMgr :: "blitOp \<Rightarrow> bool"
  allocTimeStamp :: "nat option"
  timeStampIsValid :: bool
  engineID :: nat
  gpuEvent :: GpuEvent

type_synonym outcome = "fault + (Command \<times> VirtualGPU \<times> effect list)"

text \<open>
  \<open>profilingBegin\<close> returns the timestamp object that the command carries afterwards
  (\<open>command.data()\<close>); a command arrives without one. \<open>profilingEnd\<close> records a valid
  timestamp object as \<open>cal_.lastTS_\<close>.
\<close>

definition profilingBegin :: "Device \<Rightarrow> Command \<Rightarrow> nat option" where
  "profilingBegin dev c = (if profilingEnabled c then allocTimeStamp dev else None)"

definition profilingEnd :: "Device \<Rightarrow> nat option \<Rightarrow> VirtualGPU \<Rightarrow> VirtualGPU" where
  "profilingEnd dev ts s =
     (case ts of
        None \<Rightarrow> s
      | Some t \<Rightarrow> if timeStampIsValid dev then s\<lparr>cal_lastTS := Some t\<rparr> else s)"

text \<open>\<open>setGpuEvent\<close>: \<open>cal_.events_[engineID_] = gpuEvent\<close>.\<close>

definition setGpuEvent :: "Device \<Rightarrow> GpuEvent \<Rightarrow> VirtualGPU \<Rightarrow> VirtualGPU" where
  "setGpuEvent dev e s = s\<lparr>cal_events := (cal_events s)[engineID dev := e]\<rparr>"

text \<open>One call of the blit manager: its result and the trace entry.\<close>

definition blit :: "Device \<Rightarrow> blitOp \<Rightarrow> bool \<times> effect list" where
  "blit dev b = (blitMgr dev b, [Call (Blit b) (blitMgr dev b)])"

text \<open>
  The call of \<open>createBufferFromImage\<close> with the test of its result that follows it in every
  caller: a null pointer is logged.
\<close>

definition createBufferFromImage :: "MemoryObject \<Rightarrow> createdBuffer \<times> effect list" where
  "createBufferFromImage m =
     (case bufferFromImage m of
        NotCreated \<Rightarrow>
          (NotCreated,
           [Call CreateBufferFromImage False,
            LoggedError BufferFromImageFailed])
      | Created g \<Rightarrow> (Created g, [Call CreateBufferFromImage True]))"

text \<open>
  \<open>submitReadMemory\<close>. The command: its type, the source, and the offset of the
  destination inside a CL allocation if \<open>findMemoryFromVA\<close> finds one. The device memory of
  the source is dereferenced first; a buffer created for a one-dimensional image buffer
  replaces it and is dereferenced by the blit.
\<close>

record ReadMemoryCommand =
  readType :: cl_command_type
  readSource :: MemoryObject
  readHostMemory :: "nat option"

definition submitReadMemory ::
  "Device \<Rightarrow> ReadMemoryCommand \<Rightarrow> Command \<Rightarrow> VirtualGPU \<Rightarrow> outcome" where
  "submitReadMemory dev vcmd c s =
     (let ts = profilingBegin dev c in
      if \<not> gpuMemory (readSource vcmd) then Inl NullDereference
      else
        let forced = (readType vcmd = CL_COMMAND_READ_IMAGE \<and>
                      isImage1DBuffer (readSource vcmd));
            (created, t1) = (if forced then createBufferFromImage (readSource vcmd)
                             else (NotCreated, []));
            type = (if created \<noteq> NotCreated then CL_COMMAND_READ_BUFFER else readType vcmd)
        in if created = Created False then Inl NullDereference
           else
             let (result, t2) =
                   (if type = CL_COMMAND_READ_BUFFER
                    then blit dev (if readHostMemory vcmd \<noteq> None then CopyBuffer
                                   else ReadBuffer)
                    else if type = CL_COMMAND_READ_BUFFER_RECT
                    then blit dev (if readHostMemory vcmd = Some 0 then CopyBufferRect
                                   else ReadBufferRect)
                    else if type = CL_COMMAND_READ_IMAGE
                    then blit dev (if readHostMemory vcmd \<noteq> None then CopyImageToBuffer
                                   else ReadImage)
                    else (False, [LoggedError UnsupportedRead]))
             in if \<not> result
                then Inr (setStatus c CL_INVALID_OPERATION, profilingEnd dev ts s,
                          t1 @ t2 @ [LoggedError ReadMemoryFailed])
                else Inr (c, profilingEnd dev ts s, t1 @ t2))"

text \<open>\<open>submitWriteMemory\<close>, with the destination in the place of the source.\<close>

record WriteMemoryCommand =
  writeType :: cl_command_type
  writeDestination :: MemoryObject
  writeHostMemory :: "nat option"

definition submitWriteMemory ::
  "Device \<Rightarrow> WriteMemoryCommand \<Rightarrow> Command \<Rightarrow> VirtualGPU \<Rightarrow> outcome" where
  "submitWriteMemory dev vcmd c s =
     (let ts = profilingBegin dev c in
      if \<not> gpuMemory (writeDestination vcmd) then Inl NullDereference
      else
        let forced = (writeType vcmd = CL_COMMAND_WRITE_IMAGE \<and>
                      isImage1DBuffer (writeDestination vcmd));
            (created, t1) = (if forced then createBufferFromImage (writeDestination vcmd)
                             else (NotCreated, []));
            type = (if created \<noteq> NotCreated then CL_COMMAND_WRITE_BUFFER else writeType vcmd)
        in if created = Created False then Inl NullDereference
           else
             let (result, t2) =
                   (if type = CL_COMMAND_WRITE_BUFFER
                    then blit dev (if writeHostMemory vcmd \<noteq> None then CopyBuffer
                                   else WriteBuffer)
                    else if type = CL_COMMAND_WRITE_BUFFER_RECT
                    then blit dev (if writeHostMemory vcmd = Some 0 then CopyBufferRect
                                   else WriteBufferRect)
                    else if type = CL_COMMAND_WRITE_IMAGE
                    then blit dev (if writeHostMemory vcmd \<noteq> None then CopyBufferToImage
                                   else WriteImage)
                    else (False, [LoggedError UnsupportedWrite]))
             in if \<not> result
                then Inr (setStatus c CL_INVALID_OPERATION, profilingEnd dev ts s,
                          t1 @ t2 @ [LoggedError WriteMemoryFailed])
                else Inr (c, profilingEnd dev ts s, t1 @ t2))"

text \<open>
  \<open>copyMemory\<close>, shared by \<open>submitCopyMemory\<close> and \<open>submitSvmCopyMemory\<close>: the device
  memory of destination and source is dereferenced first; a buffer created for a
  one-dimensional image buffer on either side makes the copy a buffer copy.
\<close>

definition copyMemory ::
  "Device \<Rightarrow> cl_command_type \<Rightarrow> MemoryObject \<Rightarrow> MemoryObject \<Rightarrow> fault + (bool \<times> effect list)" where
  "copyMemory dev type0 srcMem dstMem =
     (if \<not> gpuMemory dstMem \<or> \<not> gpuMemory srcMem then Inl NullDereference
      else
        let (createdSrc, t1) = (if isImage1DBuffer srcMem then createBufferFromImage srcMem
                                else (NotCreated, []));
            (createdDst, t2) = (if isImage1DBuffer dstMem then createBufferFromImage dstMem
                                else (NotCreated, []));
            type = (if createdSrc \<noteq> NotCreated \<or> createdDst \<noteq> NotCreated
                    then CL_COMMAND_COPY_BUFFER else type0)
        in if createdSrc = Created False \<or> createdDst = Created False
           then Inl NullDereference
           else
             let (result, t3) =
                   (if type = CL_COMMAND_SVM_MEMCPY \<or> type = CL_COMMAND_COPY_BUFFER
                    then blit dev CopyBuffer
                    else if type = CL_COMMAND_COPY_BUFFER_RECT then blit dev CopyBufferRect
                    else if type = CL_COMMAND_COPY_IMAGE_TO_BUFFER
                    then blit dev CopyImageToBuffer
                    else if type = CL_COMMAND_COPY_BUFFER_TO_IMAGE
                    then blit dev CopyBufferToImage
                    else if type = CL_COMMAND_COPY_IMAGE then blit dev CopyImage
                    else (False, [LoggedError UnsupportedCopy]))
             in if \<not> result
                then Inr (False, t1 @ t2 @ t3 @ [LoggedError CopyMemoryFailed])
                else Inr (True, t1 @ t2 @ t3))"

record CopyMemoryCommand =
  copyType :: cl_command_type
  copySource :: MemoryObject
  copyDestination :: MemoryObject

definition submitCopyMemory ::
  "Device \<Rightarrow> CopyMemoryCommand \<Rightarrow> Command \<Rightarrow> VirtualGPU \<Rightarrow> outcome" where
  "submitCopyMemory dev vcmd c s =
     (let ts = profilingBegin dev c in
      case copyMemory dev (copyType vcmd) (copySource vcmd) (copyDestination vcmd) of
        Inl f \<Rightarrow> Inl f
      | Inr (ok, tr) \<Rightarrow>
          Inr (if \<not> ok then setStatus c CL_INVALID_OPERATION else c, profilingEnd dev ts s, tr))"

text \<open>
  \<open>submitSvmCopyMemory\<close>. The command: its type, the answers of \<open>FindSvmBuffer\<close> for
  source and destination (\<open>None\<close> for a null pointer) and of \<open>validateRegion\<close> on each.
  The two early returns leave the function before \<open>profilingEnd\<close>.
\<close>

record SvmCopyMemoryCommand =
  svmCopyType :: cl_command_type
  svmCopySource :: "MemoryObject option"
  svmCopyDestination :: "MemoryObject option"
  svmCopySourceRegion :: bool
  svmCopyDestinationRegion :: bool

definition submitSvmCopyMemory ::
  "Device \<Rightarrow> SvmCopyMemoryCommand \<Rightarrow> Command \<Rightarrow> VirtualGPU \<Rightarrow> outcome" where
  "submitSvmCopyMemory dev vcmd c s =
     (let ts = profilingBegin dev c;
          t1 = [Call FindSvmBuffer (svmCopySource vcmd \<noteq> None),
                Call FindSvmBuffer (svmCopyDestination vcmd \<noteq> None)]
      in case (svmCopySource vcmd, svmCopyDestination vcmd) of
           (Some srcMem, Some dstMem) \<Rightarrow>
             (let t2 = Call ValidateRegion (svmCopySourceRegion vcmd) #
                       (if svmCopySourceRegion vcmd
                        then [Call ValidateRegion (svmCopyDestinationRegion vcmd)] else [])
              in if \<not> svmCopySourceRegion vcmd \<or> \<not> svmCopyDestinationRegion vcmd
                 then Inr (setStatus c CL_INVALID_OPERATION, s, t1 @ t2)
                 else
                   (case copyMemory dev (svmCopyType vcmd) srcMem dstMem of
                      Inl f \<Rightarrow> Inl f
                    | Inr (ok, tr) \<Rightarrow>
                        Inr (if \<not> ok then setStatus c CL_INVALID_OPERATION else c,
                             profilingEnd dev ts s, t1 @ t2 @ tr)))
         | _ \<Rightarrow> Inr (setStatus c CL_INVALID_OPERATION, s, t1))"

text \<open>
  \<open>submitMapMemory\<close>. The command: the memory object, whether the map flags contain
  \<open>CL_MAP_READ | CL_MAP_WRITE\<close>, and what the device memory answers: whether its owner has
  host memory, whether it is a persistent direct map, whether it has a map resource and
  whether it is a buffer (\<open>cal()->buffer_\<close>).
\<close>

record MapMemoryCommand =
  mapMemory :: MemoryObject
  mapReadOrWrite :: bool
  mapHasHostMem :: bool
  mapIsPersistentDirectMap :: bool
  mapHasMapMemory :: bool
  mapIsBuffer :: bool

definition submitMapMemory ::
  "Device \<Rightarrow> MapMemoryCommand \<Rightarrow> Command \<Rightarrow> VirtualGPU \<Rightarrow> outcome" where
  "submitMapMemory dev vcmd c s =
     (let ts = profilingBegin dev c in
      if \<not> gpuMemory (mapMemory vcmd) then Inl NullDereference
      else if mapHasHostMem vcmd then Inr (c, profilingEnd dev ts s, [])
      else if mapIsPersistentDirectMap vcmd then Inr (c, profilingEnd dev ts s, [])
      else if mapHasMapMemory vcmd then
        (if mapReadOrWrite vcmd then
           (if mapIsBuffer vcmd then
              (let (result, t1) = blit dev CopyBuffer in
               if \<not> result
               then Inr (setStatus c CL_MAP_FAILURE, profilingEnd dev ts s,
                         t1 @ [LoggedError MapCopyFailed])
               else Inr (c, profilingEnd dev ts s, t1))
            else if isImage1DBuffer (mapMemory vcmd) then
              (let (created, t1) = createBufferFromImage (mapMemory vcmd) in
               if created = Created False then Inl NullDereference
               else
                 let (result, t2) = blit dev CopyBuffer in
                 if \<not> result
                 then Inr (setStatus c CL_MAP_FAILURE, profilingEnd dev ts s,
                           t1 @ t2 @ [LoggedError MapCopyFailed])
                 else Inr (c, profilingEnd dev ts s, t1 @ t2))
            else
              (let (result, t1) = blit dev CopyImageToBuffer in
               if \<not> result
               then Inr (setStatus c CL_MAP_FAILURE, profilingEnd dev ts s,
                         t1 @ [LoggedError MapCopyFailed])
               else Inr (c, profilingEnd dev ts s, t1)))
         else Inr (c, profilingEnd dev ts s, []))
      else Inr (c, profilingEnd dev ts s, [LoggedError UnhandledMap]))"

text \<open>
  \<open>submitUnmapMemory\<close>. The command: the memory object and what the device memory
  answers: whether its owner has host memory, whether it is a persistent direct map with
  data, whether it has a map resource, whether the map was for writing (\<open>isUnmapWrite\<close>)
  and whether it is a buffer.
\<close>

record UnmapMemoryCommand =
  unmapMemory :: MemoryObject
  unmapHasHostMem :: bool
  unmapIsPersistentDirectMap :: bool
  unmapHasMapMemory :: bool
  unmapIsUnmapWrite :: bool
  unmapIsBuffer :: bool

definition submitUnmapMemory ::
  "Device \<Rightarrow> UnmapMemoryCommand \<Rightarrow> Command \<Rightarrow> VirtualGPU \<Rightarrow> outcome" where
  "submitUnmapMemory dev vcmd c s =
     (let ts = profilingBegin dev c in
      if \<not> gpuMemory (unmapMemory vcmd) then Inl NullDereference
      else if unmapHasHostMem vcmd then Inr (c, profilingEnd dev ts s, [])
      else if unmapIsPersistentDirectMap vcmd then Inr (c, profilingEnd dev ts s, [])
      else if unmapHasMapMemory vcmd then
        (if unmapIsUnmapWrite vcmd then
           (if unmapIsBuffer vcmd then
              (let (result, t1) = blit dev CopyBuffer in
               if \<not> result
               then Inr (setStatus c CL_OUT_OF_RESOURCES, profilingEnd dev ts s,
                         t1 @ [LoggedError UnmapCopyFailed])
               else Inr (c, profilingEnd dev ts s, t1))
            else if isImage1DBuffer (unmapMemory vcmd) then
              (let (created, t1) = createBufferFromImage (unmapMemory vcmd) in
               if created = Created False then Inl NullDereference
               else
                 let (result, t2) = blit dev CopyBuffer in
                 if \<not> result
                 then Inr (setStatus c CL_OUT_OF_RESOURCES, profilingEnd dev ts s,
                           t1 @ t2 @ [LoggedError UnmapCopyFailed])
                 else Inr (c, profilingEnd dev ts s, t1 @ t2))
            else
              (let (result, t1) = blit dev CopyBufferToImage in
               if \<not> result
               then Inr (setStatus c CL_OUT_OF_RESOURCES, profilingEnd dev ts s,
                         t1 @ [LoggedError UnmapCopyFailed])
               else Inr (c, profilingEnd dev ts s, t1)))
         else Inr (c, profilingEnd dev ts s, []))
      else Inr (setStatus c CL_INVALID_VALUE, profilingEnd dev ts s,
                [LoggedError UnhandledUnmap]))"

text \<open>
  \<open>fillMemory\<close>, shared by \<open>submitFillMemory\<close> and \<open>submitSvmFillMemory\<close>.
\<close>

definition fillMemory ::
  "Device \<Rightarrow> cl_command_type \<Rightarrow> MemoryObject \<Rightarrow> fault + (bool \<times> effect list)" where
  "fillMemory dev type0 amdMemory =
     (if \<not> gpuMemory amdMemory then Inl NullDereference
      else
        let forced = (type0 = CL_COMMAND_FILL_IMAGE \<and> isImage1DBuffer amdMemory);
            (created, t1) = (if forced then createBufferFromImage amdMemory
                             else (NotCreated, []));
            type = (if created \<noteq> NotCreated then CL_COMMAND_FILL_BUFFER else type0)
        in if created = Created False then Inl NullDereference
           else
             let (result, t2) =
                   (if type = CL_COMMAND_FILL_BUFFER \<or> type = CL_COMMAND_SVM_MEMFILL
                    then blit dev FillBuffer
                    else if type = CL_COMMAND_FILL_IMAGE then blit dev FillImage
                    else (False, [LoggedError UnsupportedFill]))
             in if \<not> result
                then Inr (False, t1 @ t2 @ [LoggedError FillMemoryFailed])
                else Inr (True, t1 @ t2))"

record FillMemoryCommand =
  fillType :: cl_command_type
  fillDestination :: MemoryObject

definition submitFillMemory ::
  "Device \<Rightarrow> FillMemoryCommand \<Rightarrow> Command \<Rightarrow> VirtualGPU \<Rightarrow> outcome" where
  "submitFillMemory dev vcmd c s =
     (let ts = profilingBegin dev c in
      case fillMemory dev (fillType vcmd) (fillDestination vcmd) of
        Inl f \<Rightarrow> Inl f
      | Inr (ok, tr) \<Rightarrow>
          Inr (if \<not> ok then setStatus c CL_INVALID_OPERATION else c, profilingEnd dev ts s, tr))"

text \<open>
  \<open>submitSvmMapMemory\<close>. The command: the answer of \<open>vcmd.getSvmMem()\<close> (\<open>None\<close> for a
  null pointer), whether the map flags contain \<open>CL_MAP_READ | CL_MAP_WRITE\<close>, whether the
  device memory has a map resource and whether it is a buffer. The early return for a
  null pointer leaves the function before \<open>profilingEnd\<close>.
\<close>

record SvmMapMemoryCommand =
  svmMapMemory :: "MemoryObject option"
  svmMapReadOrWrite :: bool
  svmMapHasMapMemory :: bool
  svmMapIsBuffer :: bool

definition submitSvmMapMemory ::
  "Device \<Rightarrow> SvmMapMemoryCommand \<Rightarrow> Command \<Rightarrow> VirtualGPU \<Rightarrow> outcome" where
  "submitSvmMapMemory dev vcmd c s =
     (let ts = profilingBegin dev c in
      case svmMapMemory vcmd of
        None \<Rightarrow>
          Inr (setStatus c CL_INVALID_VALUE, s,
               [Call GetSvmMem False, LoggedWarning WrongSvmAddress])
      | Some svmMem \<Rightarrow>
          (let t0 = [Call GetSvmMem True] in
           if \<not> gpuMemory svmMem then Inl NullDereference
           else if svmMapHasMapMemory vcmd then
             (if svmMapReadOrWrite vcmd \<and> svmMapIsBuffer vcmd then
                (let (result, t1) = blit dev CopyBuffer in
                 if \<not> result
                 then Inr (setStatus c CL_MAP_FAILURE, profilingEnd dev ts s,
                           t0 @ t1 @ [LoggedError SvmMapCopyFailed])
                 else Inr (c, profilingEnd dev ts s, t0 @ t1))
              else Inr (c, profilingEnd dev ts s, t0))
           else Inr (c, profilingEnd dev ts s, t0 @ [LoggedError UnhandledSvmMap])))"

text \<open>\<open>submitSvmUnmapMemory\<close>, with \<open>isUnmapWrite\<close> in the place of the map flags.\<close>

record SvmUnmapMemoryCommand =
  svmUnmapMemory :: "MemoryObject option"
  svmUnmapHasMapMemory :: bool
  svmUnmapIsUnmapWrite :: bool
  svmUnmapIsBuffer :: bool

definition submitSvmUnmapMemory ::
  "Device \<Rightarrow> SvmUnmapMemoryCommand \<Rightarrow> Command \<Rightarrow> VirtualGPU \<Rightarrow> outcome" where
  "submitSvmUnmapMemory dev vcmd c s =
     (let ts = profilingBegin dev c in
      case svmUnmapMemory vcmd of
        None \<Rightarrow>
          Inr (setStatus c CL_INVALID_VALUE, s,
               [Call GetSvmMem False, LoggedWarning WrongSvmAddress])
      | Some svmMem \<Rightarrow>
          (let t0 = [Call GetSvmMem True] in
           if \<not> gpuMemory svmMem then Inl NullDereference
           else if svmUnmapHasMapMemory vcmd \<and> svmUnmapIsUnmapWrite vcmd \<and>
                   svmUnmapIsBuffer vcmd then
             (let (result, t1) = blit dev CopyBuffer in
              if \<not> result
              then Inr (setStatus c CL_OUT_OF_RESOURCES, profilingEnd dev ts s,
                        t0 @ t1 @ [LoggedError UnmapCopyFailed])
              else Inr (c, profilingEnd dev ts s, t0 @ t1))
           else Inr (c, profilingEnd dev ts s, t0)))"

text \<open>
  \<open>submitSvmFillMemory\<close>. The command: its type and the answer of \<open>FindSvmBuffer\<close> for the
  destination, which is dereferenced without a test.
\<close>

record SvmFillMemoryCommand =
  svmFillType :: cl_command_type
  svmFillDestination :: "MemoryObject option"

definition submitSvmFillMemory ::
  "Device \<Rightarrow> SvmFillMemoryCommand \<Rightarrow> Command \<Rightarrow> VirtualGPU \<Rightarrow> outcome" where
  "submitSvmFillMemory dev vcmd c s =
     (let ts = profilingBegin dev c in
      case svmFillDestination vcmd of
        None \<Rightarrow> Inl NullDereference
      | Some dstMemory \<Rightarrow>
          (case fillMemory dev (svmFillType vcmd) dstMemory of
             Inl f \<Rightarrow> Inl f
           | Inr (ok, tr) \<Rightarrow>
               Inr (if \<not> ok then setStatus c CL_INVALID_OPERATION else c,
                    profilingEnd dev ts s, Call FindSvmBuffer True # tr)))"

text \<open>
  \<open>submitMigrateMemObjects\<close>. The migration flags select one branch for all objects; the
  list holds, per memory object, whether \<open>dev().getGpuMemory\<close> returns device memory, which
  the first two branches dereference.
\<close>

datatype migration = MigrateToHost | MigrateContentUndefined | MigrateOther

fun migrateObjects :: "migration \<Rightarrow> bool list \<Rightarrow> fault + effect list" where
  "migrateObjects flags [] = Inr []"
| "migrateObjects flags (m # ms) =
     (if flags = MigrateOther
      then (case migrateObjects flags ms of
              Inl f \<Rightarrow> Inl f
            | Inr tr \<Rightarrow> Inr (LoggedWarning UnknownMigration # tr))
      else if \<not> m then Inl NullDereference
      else migrateObjects flags ms)"

definition submitMigrateMemObjects ::
  "Device \<Rightarrow> migration \<Rightarrow> bool list \<Rightarrow> Command \<Rightarrow> VirtualGPU \<Rightarrow> outcome" where
  "submitMigrateMemObjects dev flags memObjects c s =
     (let ts = profilingBegin dev c in
      case migrateObjects flags memObjects of
        Inl f \<Rightarrow> Inl f
      | Inr tr \<Rightarrow> Inr (c, profilingEnd dev ts s, tr))"

text \<open>\<open>submitSvmFreeMemory\<close>: the pointers are freed; nothing can fail.\<close>

definition submitSvmFreeMemory :: "Device \<Rightarrow> Command \<Rightarrow> VirtualGPU \<Rightarrow> outcome" where
  "submitSvmFreeMemory dev c s =
     (let ts = profilingBegin dev c in Inr (c, profilingEnd dev ts s, []))"

text \<open>
  A kernel launch as \<open>submitKernelInternalHSA\<close> sees it: the answers of the printf buffer,
  the device, the SVM manager and the kernel object, the hardware ring of this queue and,
  if the context has a default device queue, the hardware ring of that queue.
\<close>

datatype FGSStatus = FGS_DEFAULT | FGS_NO | FGS_YES

datatype svmPointer = NoSvmBuffer | SvmBuffer bool

record HsaLaunch =
  printfInit :: bool
  deviceSupportFGS :: bool
  svmSystemPointersSupport :: FGSStatus
  svmPointers :: "svmPointer list"
  dynamicParallelism :: bool
  defQueueRing :: "nat option"
  hwRing :: nat
  loadArguments :: bool
  printfOutput :: bool

text \<open>What a kernel submission does on the hardware and on the queues, in order.\<close>

datatype action =
  ProcessMemObjects
  | WriteVQueueHeader
  | RunAqlDispatch nat
  | RunScheduler nat
  | VirtualQueueHandshake
  | SetGpuEvent
  | LogError string

text \<open>
  The loop over the SVM pointers of the launch: \<open>False\<close> when it returns \<open>false\<close> from the
  function. \<open>SvmBuffer g\<close> is a pointer into an SVM buffer, with \<open>g\<close> telling whether the
  device has memory for it.
\<close>

fun svmPointersOk :: "bool \<Rightarrow> svmPointer list \<Rightarrow> bool" where
  "svmPointersOk fgs [] = True"
| "svmPointersOk fgs (NoSvmBuffer # ps) = (if \<not> fgs then False else svmPointersOk fgs ps)"
| "svmPointersOk fgs (SvmBuffer g # ps) = (if g then svmPointersOk fgs ps else False)"

definition submitKernelInternalHSA :: "HsaLaunch \<Rightarrow> bool \<times> action list" where
  "submitKernelInternalHSA k =
     (if \<not> printfInit k
      then (False, [LogError ''Printf debug buffer initialization failed!''])
      else if svmSystemPointersSupport k = FGS_YES \<and> \<not> deviceSupportFGS k then (False, [])
      else
        let supportFineGrainedSystem =
              (case svmSystemPointersSupport k of
                 FGS_YES \<Rightarrow> True | FGS_NO \<Rightarrow> False | FGS_DEFAULT \<Rightarrow> deviceSupportFGS k)
        in if \<not> svmPointersOk supportFineGrainedSystem (svmPointers k) then (False, [])
           else
             let t1 = [ProcessMemObjects] in
             if dynamicParallelism k \<and> defQueueRing k = None
             then (False, t1 @ [LogError ''Default device queue wasn't allocated''])
             else if dynamicParallelism k \<and> defQueueRing k = Some (hwRing k)
             then (False, t1 @ [LogError
                    ''Can't submit the child kernels to the same HW ring as the host queue!''])
             else
               let t2 = t1 @ (if dynamicParallelism k then [WriteVQueueHeader] else []) in
               if \<not> loadArguments k
               then (False, t2 @ [LogError ''Couldn't load kernel arguments''])
               else
                 let t3 = t2 @ [RunAqlDispatch (hwRing k)] @
                       (case (dynamicParallelism k, defQueueRing k) of
                          (True, Some r) \<Rightarrow> [RunScheduler r, VirtualQueueHandshake]
                        | _ \<Rightarrow> []) @
                       [SetGpuEvent]
                 in if \<not> printfOutput k
                    then (False, t3 @ [LogError ''Couldn't read printf data from the buffer!''])
                    else (True, t3))"

text \<open>
  A launch of a kernel that is not an HSA kernel, as \<open>submitKernelInternal\<close> sees it: the
  answers of \<open>setActiveKernelDesc\<close>, the printf buffer and \<open>loadParameters\<close>, the number of
  iterations that \<open>findIterations\<close> leaves in \<open>cal()->iterations_\<close>, and per iteration the
  answers of the printf initialisation, of \<open>run\<close> and of the printf output.
\<close>

record AmdilLaunch =
  setActiveKernelDesc :: bool
  printfDbgInit :: bool
  loadParameters :: bool
  iterations :: nat
  iterationInit :: "nat \<Rightarrow> bool"
  iterationRun :: "nat \<Rightarrow> bool"
  iterationOutput :: "nat \<Rightarrow> bool"

text \<open>The \<open>do ... while (i < cal()->iterations_)\<close> loop, from iteration \<open>i\<close> on.\<close>

function runIterations :: "AmdilLaunch \<Rightarrow> nat \<Rightarrow> bool" where
  "runIterations k i =
     (if iterations k > 1 \<and> \<not> iterationInit k i then False
      else if \<not> iterationRun k i then False
      else if \<not> iterationOutput k i then False
      else if Suc i < iterations k then runIterations k (Suc i)
      else True)"
  by pat_completeness auto
termination
  by (relation "measure (\<lambda>(k, i). iterations k - i)") auto

declare runIterations.simps [simp del]

datatype kernelLaunch = Hsa HsaLaunch | Amdil AmdilLaunch

definition submitKernelInternal :: "kernelLaunch \<Rightarrow> bool" where
  "submitKernelInternal launch =
     (case launch of
        Hsa k \<Rightarrow> fst (submitKernelInternalHSA k)
      | Amdil k \<Rightarrow>
          (if \<not> setActiveKernelDesc k \<or> \<not> printfDbgInit k then False
           else if loadParameters k then runIterations k 0
           else False))"

definition submitKernel :: "kernelLaunch \<Rightarrow> Command \<Rightarrow> Command" where
  "submitKernel launch c =
     (if \<not> submitKernelInternal launch then setStatus c CL_INVALID_OPERATION else c)"

text \<open>
  Whether a launch reaches \<open>setGpuEvent\<close>: in \<open>submitKernelInternalHSA\<close> after the
  dispatch, in the other path of \<open>submitKernelInternal\<close> after the first run of the kernel
  that succeeds.
\<close>

definition kernelRecordsEvent :: "kernelLaunch \<Rightarrow> bool" where
  "kernelRecordsEvent launch =
     (case launch of
        Hsa k \<Rightarrow> SetGpuEvent \<in> set (snd (submitKernelInternalHSA k))
      | Amdil k \<Rightarrow>
          setActiveKernelDesc k \<and> printfDbgInit k \<and> loadParameters k \<and>
          (iterations k \<le> 1 \<or> iterationInit k 0) \<and> iterationRun k 0)"

text \<open>
  \<open>submitKernel\<close> on the queue: the command as \<open>submitKernel\<close> leaves it, the event that
  the launch recorded, and the timestamp.
\<close>

definition submitKernelOnQueue ::
  "Device \<Rightarrow> kernelLaunch \<Rightarrow> Command \<Rightarrow> VirtualGPU \<Rightarrow> outcome" where
  "submitKernelOnQueue dev launch c s =
     (let ts = profilingBegin dev c;
          s1 = (if kernelRecordsEvent launch then setGpuEvent dev (gpuEvent dev) s else s)
      in Inr (submitKernel launch c, profilingEnd dev ts s1,
              [Call SubmitKernelInternal (submitKernelInternal launch)]))"

text \<open>
  \<open>submitAcquireExtObjects\<close> and \<open>submitReleaseExtObjects\<close>. An interop object: whether
  \<open>dev().getGpuMemory\<close> returns device memory for it, its interop type, and the answer of
  the blit manager for the copy that synchronises it. A failed copy returns from the
  function before \<open>profilingEnd\<close>.
\<close>

datatype interopType = InteropDirectAccess | InteropHwEmulation | InteropOther

record InteropObject =
  interopMemory :: bool
  interopKind :: interopType
  interopSync :: bool

fun acquireObjects :: "InteropObject list \<Rightarrow> fault + (bool \<times> effect list)" where
  "acquireObjects [] = Inr (True, [])"
| "acquireObjects (m # ms) =
     (if \<not> interopMemory m then Inl NullDereference
      else if interopKind m = InteropDirectAccess then acquireObjects ms
      else if interopKind m = InteropHwEmulation then
        (if \<not> interopSync m
         then Inr (False,
                   [Call (Blit CopyBuffer) False,
                    LoggedError AcquireSyncFailed])
         else (case acquireObjects ms of
                 Inl f \<Rightarrow> Inl f
               | Inr (ok, tr) \<Rightarrow> Inr (ok, Call (Blit CopyBuffer) True # tr)))
      else acquireObjects ms)"

definition submitAcquireExtObjects ::
  "Device \<Rightarrow> InteropObject list \<Rightarrow> Command \<Rightarrow> VirtualGPU \<Rightarrow> outcome" where
  "submitAcquireExtObjects dev memList c s =
     (let ts = profilingBegin dev c in
      case acquireObjects memList of
        Inl f \<Rightarrow> Inl f
      | Inr (ok, tr) \<Rightarrow>
          if ok then Inr (c, profilingEnd dev ts s, tr)
          else Inr (setStatus c CL_INVALID_OPERATION, s, tr))"

fun releaseObjects :: "InteropObject list \<Rightarrow> fault + (bool \<times> effect list)" where
  "releaseObjects [] = Inr (True, [])"
| "releaseObjects (m # ms) =
     (if \<not> interopMemory m then Inl NullDereference
      else if interopKind m = InteropHwEmulation then
        (if \<not> interopSync m
         then Inr (False,
                   [Call (Blit CopyBuffer) False,
                    LoggedError ReleaseSyncFailed])
         else (case releaseObjects ms of
                 Inl f \<Rightarrow> Inl f
               | Inr (ok, tr) \<Rightarrow> Inr (ok, Call (Blit CopyBuffer) True # tr)))
      else if interopKind m \<noteq> InteropDirectAccess
      then (case releaseObjects ms of
              Inl f \<Rightarrow> Inl f
            | Inr (ok, tr) \<Rightarrow> Inr (ok, LoggedError NoneInteropRelease # tr))
      else releaseObjects ms)"

definition submitReleaseExtObjects ::
  "Device \<Rightarrow> InteropObject list \<Rightarrow> Command \<Rightarrow> VirtualGPU \<Rightarrow> outcome" where
  "submitReleaseExtObjects dev memList c s =
     (let ts = profilingBegin dev c in
      case releaseObjects memList of
        Inl f \<Rightarrow> Inl f
      | Inr (ok, tr) \<Rightarrow>
          if ok then Inr (c, profilingEnd dev ts s, tr)
          else Inr (setStatus c CL_INVALID_OPERATION, s, tr))"

text \<open>
  \<open>submitSignal\<close>. The command: its type, whether \<open>dev().getGpuMemory\<close> returns device
  memory, which the two signal types dereference, and the answer of \<open>WaitSignal\<close> or
  \<open>WriteSignal\<close>.
\<close>

record SignalCommand =
  signalType :: cl_command_type
  signalMemory :: bool
  signalResult :: bool

definition submitSignal ::
  "Device \<Rightarrow> SignalCommand \<Rightarrow> Command \<Rightarrow> VirtualGPU \<Rightarrow> outcome" where
  "submitSignal dev vcmd c s =
     (let ts = profilingBegin dev c;
          signal = (signalType vcmd = CL_COMMAND_WAIT_SIGNAL_AMD \<or>
                    signalType vcmd = CL_COMMAND_WRITE_SIGNAL_AMD)
      in if signal \<and> \<not> signalMemory vcmd then Inl NullDereference
         else
           let (res, t1) =
                 (if signalType vcmd = CL_COMMAND_WAIT_SIGNAL_AMD
                  then (signalResult vcmd, [Call WaitSignal (signalResult vcmd)])
                  else if signalType vcmd = CL_COMMAND_WRITE_SIGNAL_AMD
                  then (signalResult vcmd, [Call WriteSignal (signalResult vcmd)])
                  else (True, []))
           in if \<not> res
              then Inr (setStatus c CL_INVALID_OPERATION, profilingEnd dev ts s,
                        t1 @ [LoggedError SignalFailed])
              else Inr (c, profilingEnd dev ts s, t1))"

text \<open>
  \<open>submitMakeBuffersResident\<close>. The command: per memory object whether
  \<open>dev().getGpuMemory\<close> returns device memory, which the first loop dereferences, and the
  answer of \<open>MakeBuffersResident\<close>.
\<close>

record MakeBuffersResidentCommand =
  residentMemObjects :: "bool list"
  residentResult :: bool

definition submitMakeBuffersResident ::
  "Device \<Rightarrow> MakeBuffersResidentCommand \<Rightarrow> Command \<Rightarrow> VirtualGPU \<Rightarrow> outcome" where
  "submitMakeBuffersResident dev vcmd c s =
     (let ts = profilingBegin dev c in
      if \<not> list_all (\<lambda>m. m) (residentMemObjects vcmd) then Inl NullDereference
      else if \<not> residentResult vcmd
      then Inr (setStatus c CL_INVALID_OPERATION, profilingEnd dev ts s,
                [Call MakeBuffersResident False, LoggedError MakeBuffersResidentFailed])
      else Inr (c, profilingEnd dev ts s, [Call MakeBuffersResident True]))"

text \<open>
  One submission to the queue: the entry point and its command. The entry points for
  performance counters, thread traces and video, and the unimplemented \<open>submitNativeFn\<close>,
  are not among them.
\<close>

datatype submission =
  Read ReadMemoryCommand
  | Write WriteMemoryCommand
  | Copy CopyMemoryCommand
  | SvmCopy SvmCopyMemoryCommand
  | Map MapMemoryCommand
  | Unmap UnmapMemoryCommand
  | Fill FillMemoryCommand
  | SvmMap SvmMapMemoryCommand
  | SvmUnmap SvmUnmapMemoryCommand
  | SvmFill SvmFillMemoryCommand
  | Migrate migration "bool list"
  | SvmFree
  | Kernel kernelLaunch
  | Marker "nat option"
  | AcquireExt "InteropObject list"
  | ReleaseExt "InteropObject list"
  | Signal SignalCommand
  | MakeResident MakeBuffersResidentCommand

fun submit :: "Device \<Rightarrow> submission \<Rightarrow> Command \<Rightarrow> VirtualGPU \<Rightarrow> outcome" where
  "submit dev (Read vcmd) c s = submitReadMemory dev vcmd c s"
| "submit dev (Write vcmd) c s = submitWriteMemory dev vcmd c s"
| "submit dev (Copy vcmd) c s = submitCopyMemory dev vcmd c s"
| "submit dev (SvmCopy vcmd) c s = submitSvmCopyMemory dev vcmd c s"
| "submit dev (Map vcmd) c s = submitMapMemory dev vcmd c s"
| "submit dev (Unmap vcmd) c s = submitUnmapMemory dev vcmd c s"
| "submit dev (Fill vcmd) c s = submitFillMemory dev vcmd c s"
| "submit dev (SvmMap vcmd) c s = submitSvmMapMemory dev vcmd c s"
| "submit dev (SvmUnmap vcmd) c s = submitSvmUnmapMemory dev vcmd c s"
| "submit dev (SvmFill vcmd) c s = submitSvmFillMemory dev vcmd c s"
| "submit dev (Migrate flags memObjects) c s = submitMigrateMemObjects dev flags memObjects c s"
| "submit dev SvmFree c s = submitSvmFreeMemory dev c s"
| "submit dev (Kernel launch) c s = submitKernelOnQueue dev launch c s"
| "submit dev (Marker waitingEvent) c s = Inr (c, submitMarker waitingEvent s, [])"
| "submit dev (AcquireExt memList) c s = submitAcquireExtObjects dev memList c s"
| "submit dev (ReleaseExt memList) c s = submitReleaseExtObjects dev memList c s"
| "submit dev (Signal vcmd) c s = submitSignal dev vcmd c s"
| "submit dev (MakeResident vcmd) c s = submitMakeBuffersResident dev vcmd c s"

section \<open>Statements of the specification about submission, for comparison with the code\<close>












definition workingDevice :: Device where
  "workingDevice = \<lparr>blitMgr = (\<lambda>b. True), allocTimeStamp = None, timeStampIsValid = False,
                    engineID = 0, gpuEvent = pendingEvent\<rparr>"



text \<open>A memory object without device memory on this device.\<close>

definition foreignBuffer :: MemoryObject where
  "foreignBuffer = \<lparr>gpuMemory = False, isImage1DBuffer = False, bufferFromImage = NotCreated\<rparr>"



definition foreignRead :: ReadMemoryCommand where
  "foreignRead = \<lparr>readType = CL_COMMAND_READ_BUFFER, readSource = foreignBuffer,
                  readHostMemory = None\<rparr>"



text \<open>
  A launch with device-side enqueue whose default device queue sits on hardware ring 0,
  the ring of the submitting queue, and the same launch with the device queue on ring 1.
\<close>

definition sameRingLaunch :: HsaLaunch where
  "sameRingLaunch = \<lparr>printfInit = True, deviceSupportFGS = False,
                     svmSystemPointersSupport = FGS_DEFAULT, svmPointers = [],
                     dynamicParallelism = True, defQueueRing = Some 0, hwRing = 0,
                     loadArguments = True, printfOutput = True\<rparr>"

definition otherRingLaunch :: HsaLaunch where
  "otherRingLaunch = sameRingLaunch\<lparr>defQueueRing := Some 1\<rparr>"

section \<open>Properties of the memory-dependency tracker\<close>

lemma preserveLoop_spec:
  "i \<le> j \<Longrightarrow> j \<le> n \<Longrightarrow> n \<le> length a \<Longrightarrow>
   (case preserveLoop a i j n of (a', i') \<Rightarrow>
      i' = i + (n - j) \<and> length a' = length a \<and>
      take i' a' = take i a @ drop j (take n a))"
proof (induction a i j n rule: preserveLoop.induct)
  case (1 a i j n)
  show ?case
  proof (cases "j < n")
    case False
    with 1 show ?thesis by (simp add: preserveLoop.simps)
  next
    case True
    let ?a1 = "a[i := a ! j]"
    from 1 True have ih: "(case preserveLoop ?a1 (Suc i) (Suc j) n of (a', i') \<Rightarrow>
      i' = Suc i + (n - Suc j) \<and> length a' = length ?a1 \<and>
      take i' a' = take (Suc i) ?a1 @ drop (Suc j) (take n ?a1))"
      by simp
    have i_lt: "i < length a" using 1 True by simp
    have t1: "take (Suc i) ?a1 = take i a @ [a ! j]"
      using i_lt by (simp add: take_Suc_conv_app_nth)
    have t2: "drop (Suc j) (take n ?a1) = drop (Suc j) (take n a)"
      using 1 by (simp add: take_update_swap)
    have t3: "drop j (take n a) = a ! j # drop (Suc j) (take n a)"
      using True 1 by (simp add: Cons_nth_drop_Suc [symmetric])
    show ?thesis
      using ih True t1 t2 t3
      by (simp add: preserveLoop.simps [of a i j n] split: prod.splits)
  qed
qed

lemma length_memsetWords: "length (memsetWords a i n) = length a"
  by (simp add: memsetWords_def)

lemma take_memsetWords: "i \<le> length a \<Longrightarrow> take i (memsetWords a i n) = take i a"
  by (rule nth_equalityI) (simp_all add: memsetWords_def)

lemma clear_False_spec:
  assumes "wellFormed t" and "memsetFits t"
  shows "\<exists>t1. clear False t = Inr t1 \<and>
     trackedEntries t1 = drop (endMemObjectsInQueue t) (trackedEntries t) \<and>
     numMemObjectsInQueue t1 = numMemObjectsInQueue t - endMemObjectsInQueue t \<and>
     endMemObjectsInQueue t1 = 0 \<and>
     maxMemObjectsInQueue t1 = maxMemObjectsInQueue t \<and>
     length (memObjectsInQueue t1) = length (memObjectsInQueue t)"
proof (cases "numMemObjectsInQueue t = 0")
  case True
  with assms(1) show ?thesis
    by (simp add: clear_def trackedEntries_def wellFormed_def)
next
  case False
  let ?e = "endMemObjectsInQueue t" and ?n = "numMemObjectsInQueue t"
  let ?a = "memObjectsInQueue t"
  from assms(1) have b: "0 \<le> ?e" "?e \<le> ?n" "?n \<le> length ?a"
    and len: "length ?a = maxMemObjectsInQueue t"
    by (simp_all add: wellFormed_def)
  obtain a' i' where p: "preserveLoop ?a 0 ?e ?n = (a', i')" by (cases "preserveLoop ?a 0 ?e ?n")
  from preserveLoop_spec [OF b]
  have r: "i' = 0 + (?n - ?e)" "length a' = length ?a"
    "take i' a' = take 0 ?a @ drop ?e (take ?n ?a)"
    unfolding p prod.case by blast+
  have i: "i' = ?n - ?e" using r(1) by simp
  have fits: "\<not> 3 * i' + ?n > 3 * length a'"
    using assms(2) False i r(2) len by (simp add: memsetFits_def)
  have il: "i' \<le> length a'" using i b r(2) by simp
  have "take (?n - ?e) (memsetWords a' i' ?n) = take i' a'"
    using take_memsetWords [OF il] i by simp
  also have "\<dots> = drop ?e (take ?n ?a)" using r(3) by simp
  finally have tk: "take (?n - ?e) (memsetWords a' i' ?n) = drop ?e (take ?n ?a)" .
  have c: "clear False t = Inr (t\<lparr>memObjectsInQueue := memsetWords a' i' ?n,
                         numMemObjectsInQueue := ?n - ?e, endMemObjectsInQueue := 0\<rparr>)"
    using False b p fits by (simp add: clear_def Let_def)
  show ?thesis
    unfolding c using tk r(2) by (simp add: trackedEntries_def length_memsetWords)
qed

lemma clear_False_overruns:
  assumes "wellFormed t" and "\<not> memsetFits t"
  shows "clear False t = Inl (OutOfBounds (maxMemObjectsInQueue t))"
proof -
  let ?e = "endMemObjectsInQueue t" and ?n = "numMemObjectsInQueue t"
  let ?a = "memObjectsInQueue t"
  from assms(1) have b: "0 \<le> ?e" "?e \<le> ?n" "?n \<le> length ?a"
    and len: "length ?a = maxMemObjectsInQueue t"
    by (simp_all add: wellFormed_def)
  from assms(2) have pos: "0 < ?n" and big: "3 * (?n - ?e) + ?n > 3 * maxMemObjectsInQueue t"
    by (simp_all add: memsetFits_def)
  obtain a' i' where p: "preserveLoop ?a 0 ?e ?n = (a', i')" by (cases "preserveLoop ?a 0 ?e ?n")
  from preserveLoop_spec [OF b]
  have r: "i' = 0 + (?n - ?e)" "length a' = length ?a"
    unfolding p prod.case by blast+
  have i: "i' = ?n - ?e" using r(1) by simp
  have m: "max i' (length a') = maxMemObjectsInQueue t"
    using i r(2) len b by simp
  have over: "3 * i' + ?n > 3 * length a'" using big i r(2) len by simp
  show ?thesis
    using pos b p over m by (simp add: clear_def Let_def)
qed

lemma dependencyLoop_iff:
  "dependencyLoop cs ce ro ms \<longleftrightarrow> (\<exists>j < length ms. busyHit cs ce ro (ms ! j))"
proof (induction ms)
  case Nil
  show ?case by simp
next
  case (Cons m ms)
  show ?case
    by (auto simp: Cons.IH less_Suc_eq_0_disj)
qed

lemma ranges_meet_iff:
  fixes a b c d :: nat
  shows "{a ..< b} \<inter> {c ..< d} \<noteq> {} \<longleftrightarrow> max a c < min b d"
proof -
  have "{a ..< b} \<inter> {c ..< d} = {max a c ..< min b d}" by auto
  then show ?thesis by auto
qed

lemma busyHit_iff_spec_hazard:
  assumes "0 < unat (hbSize memory)"
    and "unat (hbOffset memory) + unat (hbSize memory) < 2 ^ 64"
    and "rangeStart m < rangeEnd m"
  shows "busyHit (hbOffset memory) (hbOffset memory + hbSize memory) ro m
         \<longleftrightarrow> spec_hazard memory ro m"
proof -
  have e: "unat (hbOffset memory + hbSize memory) = unat (hbOffset memory) + unat (hbSize memory)"
    using assms(2) by (simp add: unat_word_ariths)
  show ?thesis
    using assms(1,3) e
    unfolding busyHit_def spec_hazard_def ranges_meet_iff Let_def word_le_nat_alt word_less_nat_alt
    by auto
qed


lemma dependencyLoop_iff_spec:
  assumes "wellFormed t"
    and "0 < unat (hbSize memory)"
    and "unat (hbOffset memory) + unat (hbSize memory) < 2 ^ 64"
    and "\<forall>j < endMemObjectsInQueue t.
           rangeStart (memObjectsInQueue t ! j) < rangeEnd (memObjectsInQueue t ! j)"
  shows "dependencyLoop (hbOffset memory) (hbOffset memory + hbSize memory) ro
           (take (endMemObjectsInQueue t) (memObjectsInQueue t))
         \<longleftrightarrow> (\<exists>j < endMemObjectsInQueue t. spec_hazard memory ro (memObjectsInQueue t ! j))"
proof -
  from assms(1) have len: "endMemObjectsInQueue t \<le> length (memObjectsInQueue t)"
    by (simp add: wellFormed_def)
  show ?thesis
    using len assms(4) busyHit_iff_spec_hazard [OF assms(2,3)]
    by (auto simp: dependencyLoop_iff min_def)
qed

text \<open>
  Where \<open>validate\<close> stays inside the array it does what the specification says. On a
  well-formed tracker of positive capacity, for an access with a non-empty byte range that
  does not wrap around the 64-bit address space, against recorded entries with non-empty
  ranges, and provided that on a flush the \<open>memset\<close> of \<open>clear\<close> and the slot for the new
  entry lie inside the array: \<open>validate\<close> calls \<open>flushL1Cache\<close> if and only if the half-open
  range of the access meets an entry recorded before the current-kernel boundary and not
  both are read-only, or appending reaches the capacity. On a flush only the entries after
  the boundary are kept and the boundary becomes zero. In both cases the new entry is
  appended after the decision, behind the boundary.
\<close>

lemma validate_in_bounds_flushes_iff_hazard_or_full:
  assumes wf: "wellFormed t"
    and cap: "0 < maxMemObjectsInQueue t"
    and room: "numMemObjectsInQueue t - endMemObjectsInQueue t < maxMemObjectsInQueue t"
    and fits: "spec_flushRequired t memory ro \<longrightarrow> memsetFits t"
    and size: "0 < unat (hbSize memory)"
    and nowrap: "unat (hbOffset memory) + unat (hbSize memory) < 2 ^ 64"
    and busy: "\<forall>j < endMemObjectsInQueue t.
           rangeStart (memObjectsInQueue t ! j) < rangeEnd (memObjectsInQueue t ! j)"
  shows "\<exists>t'. validate t memory ro = Inr (spec_flushRequired t memory ro, t') \<and>
           trackedEntries t' =
             (if spec_flushRequired t memory ro
              then drop (endMemObjectsInQueue t) (trackedEntries t)
              else trackedEntries t) @ [entryOf memory ro] \<and>
           endMemObjectsInQueue t' =
             (if spec_flushRequired t memory ro then 0 else endMemObjectsInQueue t) \<and>
           endMemObjectsInQueue t' < numMemObjectsInQueue t' \<and>
           maxMemObjectsInQueue t' = maxMemObjectsInQueue t \<and>
           wellFormed t'"
proof -
  let ?f = "spec_flushRequired t memory ro"
  from wf have len: "length (memObjectsInQueue t) = maxMemObjectsInQueue t"
    and en: "endMemObjectsInQueue t \<le> numMemObjectsInQueue t"
    and nm: "numMemObjectsInQueue t \<le> maxMemObjectsInQueue t"
    by (simp_all add: wellFormed_def)
  have flag: "(dependencyLoop (hbOffset memory) (hbOffset memory + hbSize memory) ro
                 (take (endMemObjectsInQueue t) (memObjectsInQueue t)) \<or>
               maxMemObjectsInQueue t \<le> numMemObjectsInQueue t + 1) = ?f"
    using dependencyLoop_iff_spec [OF wf size nowrap busy]
    by (simp add: spec_flushRequired_def)
  obtain t1 where c: "(if ?f then clear False t else Inr t) = Inr t1"
    and tr1: "trackedEntries t1 =
      (if ?f then drop (endMemObjectsInQueue t) (trackedEntries t) else trackedEntries t)"
    and n1: "numMemObjectsInQueue t1 =
      (if ?f then numMemObjectsInQueue t - endMemObjectsInQueue t else numMemObjectsInQueue t)"
    and end1: "endMemObjectsInQueue t1 = (if ?f then 0 else endMemObjectsInQueue t)"
    and max1: "maxMemObjectsInQueue t1 = maxMemObjectsInQueue t"
    and len1: "length (memObjectsInQueue t1) = maxMemObjectsInQueue t"
  proof (cases ?f)
    case True
    with fits have "memsetFits t" by simp
    from clear_False_spec [OF wf this] True len that show ?thesis by auto
  next
    case False
    with len that [of t] show ?thesis by simp
  qed
  let ?k = "numMemObjectsInQueue t1"
  let ?t' = "t1\<lparr>memObjectsInQueue := (memObjectsInQueue t1) [?k := entryOf memory ro],
                 numMemObjectsInQueue := Suc ?k\<rparr>"
  have k: "?k < maxMemObjectsInQueue t"
  proof (cases ?f)
    case True
    then show ?thesis using room n1 by simp
  next
    case False
    then have "\<not> maxMemObjectsInQueue t \<le> numMemObjectsInQueue t + 1"
      by (simp add: spec_flushRequired_def)
    with False n1 show ?thesis by simp
  qed
  have v: "validate t memory ro = Inr (?f, ?t')"
    using cap len en nm k len1 flag c
    unfolding validate_def Let_def entryOf_def
    by (simp del: One_nat_def)
  have tr: "trackedEntries ?t' = trackedEntries t1 @ [entryOf memory ro]"
    using k len1 unfolding trackedEntries_def
    by (simp add: take_Suc_conv_app_nth)
  have wf': "wellFormed ?t'"
    using k len1 max1 end1 n1 en unfolding wellFormed_def
    by (auto split: if_splits)
  have after: "endMemObjectsInQueue ?t' < numMemObjectsInQueue ?t'"
    using wf' end1 n1 en by (auto split: if_splits)
  show ?thesis
    using v tr tr1 end1 max1 wf' after
    by (intro exI [of _ ?t']) simp
qed

text \<open>
  The counters stay inside the array as long as no call runs out of bounds: \<open>create\<close>
  establishes this and \<open>newKernel\<close>, and a \<open>clear\<close> or \<open>validate\<close> that returns, preserve it.
\<close>

lemma create_wellFormed: "wellFormed (create n)"
  by (simp add: wellFormed_def create_def)

lemma newKernel_wellFormed: "wellFormed t \<Longrightarrow> wellFormed (newKernel t)"
  by (simp add: wellFormed_def newKernel_def)

lemma clear_wellFormed:
  assumes "wellFormed t" and "clear all t = Inr t1"
  shows "wellFormed t1"
proof (cases "numMemObjectsInQueue t = 0")
  case True
  with assms show ?thesis by (simp add: clear_def)
next
  case False
  let ?n = "numMemObjectsInQueue t"
  let ?e = "if all then ?n else endMemObjectsInQueue t"
  from assms(1) have b: "0 \<le> ?e" "?e \<le> ?n" "?n \<le> length (memObjectsInQueue t)"
    and len: "length (memObjectsInQueue t) = maxMemObjectsInQueue t"
    by (simp_all add: wellFormed_def)
  obtain a' i' where p: "preserveLoop (memObjectsInQueue t) 0 ?e ?n = (a', i')"
    by (cases "preserveLoop (memObjectsInQueue t) 0 ?e ?n")
  from preserveLoop_spec [OF b] have l: "length a' = length (memObjectsInQueue t)"
    unfolding p prod.case by blast
  from assms(2) False b p
  have "t1 = t\<lparr>memObjectsInQueue := memsetWords a' i' ?n,
               numMemObjectsInQueue := ?n - ?e, endMemObjectsInQueue := 0\<rparr>"
    by (auto simp: clear_def Let_def split: if_splits)
  then show ?thesis
    using l len b by (auto simp: wellFormed_def length_memsetWords)
qed

lemma validate_wellFormed:
  assumes "wellFormed t" and "validate t memory ro = Inr (f, t')"
  shows "wellFormed t'"
proof (cases "maxMemObjectsInQueue t = 0")
  case True
  with assms show ?thesis by (simp add: validate_def)
next
  case False
  from assms(2) False obtain t1 where c: "(if f then clear False t else Inr t) = Inr t1"
    and k: "numMemObjectsInQueue t1 < length (memObjectsInQueue t1)"
    and t': "t' = t1\<lparr>memObjectsInQueue := (memObjectsInQueue t1)
                   [numMemObjectsInQueue t1 := entryOf memory ro],
                 numMemObjectsInQueue := Suc (numMemObjectsInQueue t1)\<rparr>"
    unfolding validate_def Let_def entryOf_def
    by (auto split: if_splits sum.splits)
  have w1: "wellFormed t1"
    using c assms(1) clear_wellFormed [of t False t1] by (auto split: if_splits)
  show ?thesis
    using w1 k unfolding t' wellFormed_def by auto
qed

text \<open>
  Within one kernel (no \<open>newKernel\<close> in between) no flush removes an entry. While the
  capacity is not reached, every \<open>validate\<close> adds an entry without a flush. The call that
  reaches the capacity flushes, and its \<open>clear\<close> overruns the array when the capacity is
  above 4; otherwise the next call does. So a kernel that validates more objects than the
  array has slots runs out of bounds, for every capacity.
\<close>

lemma validate_below_capacity:
  assumes "wellFormed t" and "endMemObjectsInQueue t = 0"
    and "numMemObjectsInQueue t + 1 < maxMemObjectsInQueue t"
  shows "\<exists>t'. validate t memory ro = Inr (False, t') \<and> wellFormed t' \<and>
         endMemObjectsInQueue t' = 0 \<and>
         numMemObjectsInQueue t' = Suc (numMemObjectsInQueue t) \<and>
         maxMemObjectsInQueue t' = maxMemObjectsInQueue t"
proof -
  from assms have len: "length (memObjectsInQueue t) = maxMemObjectsInQueue t"
    by (simp add: wellFormed_def)
  have "validate t memory ro =
      Inr (False, t\<lparr>memObjectsInQueue := (memObjectsInQueue t)
                       [numMemObjectsInQueue t := entryOf memory ro],
                     numMemObjectsInQueue := Suc (numMemObjectsInQueue t)\<rparr>)"
    using assms(2,3) len unfolding validate_def Let_def entryOf_def
    by (simp del: One_nat_def)
  moreover from this have "wellFormed (t\<lparr>memObjectsInQueue := (memObjectsInQueue t)
                       [numMemObjectsInQueue t := entryOf memory ro],
                     numMemObjectsInQueue := Suc (numMemObjectsInQueue t)\<rparr>)"
    using validate_wellFormed [OF assms(1)] by blast
  ultimately show ?thesis using assms(2) by simp
qed

lemma validates_below_capacity:
  assumes "wellFormed t" and "endMemObjectsInQueue t = 0"
    and "numMemObjectsInQueue t + length xs < maxMemObjectsInQueue t"
  shows "\<exists>t'. calls t (map (\<lambda>(m, ro). Validate m ro) xs) = Inr t' \<and> wellFormed t' \<and>
         endMemObjectsInQueue t' = 0 \<and>
         numMemObjectsInQueue t' = numMemObjectsInQueue t + length xs \<and>
         maxMemObjectsInQueue t' = maxMemObjectsInQueue t"
  using assms
proof (induction xs arbitrary: t)
  case Nil
  then show ?case by simp
next
  case (Cons x xs)
  obtain m ro where x: "x = (m, ro)" by (cases x)
  from Cons.prems have lt: "numMemObjectsInQueue t + 1 < maxMemObjectsInQueue t" by simp
  from validate_below_capacity [OF Cons.prems(1,2) lt, of m ro]
  obtain t1 where v: "validate t m ro = Inr (False, t1)" and w: "wellFormed t1"
    and e: "endMemObjectsInQueue t1 = 0"
    and n: "numMemObjectsInQueue t1 = Suc (numMemObjectsInQueue t)"
    and mx: "maxMemObjectsInQueue t1 = maxMemObjectsInQueue t"
    by blast
  have "numMemObjectsInQueue t1 + length xs < maxMemObjectsInQueue t1"
    using Cons.prems(3) n mx by simp
  from Cons.IH [OF w e this] show ?case
    using v n mx x by auto
qed

lemma validate_at_capacity:
  assumes "wellFormed t" and "endMemObjectsInQueue t = 0"
    and "numMemObjectsInQueue t + 1 = maxMemObjectsInQueue t"
  shows "(maxMemObjectsInQueue t \<le> 4 \<longrightarrow>
           (\<exists>t'. validate t memory ro = Inr (True, t') \<and> wellFormed t' \<and>
              endMemObjectsInQueue t' = 0 \<and>
              numMemObjectsInQueue t' = maxMemObjectsInQueue t \<and>
              maxMemObjectsInQueue t' = maxMemObjectsInQueue t)) \<and>
         (4 < maxMemObjectsInQueue t \<longrightarrow>
           validate t memory ro = Inl (OutOfBounds (maxMemObjectsInQueue t)))"
proof (intro conjI impI)
  from assms have len: "length (memObjectsInQueue t) = maxMemObjectsInQueue t"
    by (simp add: wellFormed_def)
  {
    assume small: "maxMemObjectsInQueue t \<le> 4"
    have fits: "memsetFits t" using assms(2,3) small by (auto simp: memsetFits_def)
    from clear_False_spec [OF assms(1) fits]
    obtain t1 where c: "clear False t = Inr t1"
      and n1: "numMemObjectsInQueue t1 = numMemObjectsInQueue t"
      and e1: "endMemObjectsInQueue t1 = 0"
      and m1: "maxMemObjectsInQueue t1 = maxMemObjectsInQueue t"
      and l1: "length (memObjectsInQueue t1) = length (memObjectsInQueue t)"
      using assms(2) by auto
    let ?t' = "t1\<lparr>memObjectsInQueue := (memObjectsInQueue t1)
                       [numMemObjectsInQueue t1 := entryOf memory ro],
                     numMemObjectsInQueue := Suc (numMemObjectsInQueue t1)\<rparr>"
    have v: "validate t memory ro = Inr (True, ?t')"
      using assms(2,3) len c n1 l1 unfolding validate_def Let_def entryOf_def
      by (simp del: One_nat_def)
    from validate_wellFormed [OF assms(1) v] v n1 e1 m1 assms(3)
    show "\<exists>t'. validate t memory ro = Inr (True, t') \<and> wellFormed t' \<and>
              endMemObjectsInQueue t' = 0 \<and>
              numMemObjectsInQueue t' = maxMemObjectsInQueue t \<and>
              maxMemObjectsInQueue t' = maxMemObjectsInQueue t"
      by (intro exI [of _ ?t']) simp
  }
  {
    assume big: "4 < maxMemObjectsInQueue t"
    have nofit: "\<not> memsetFits t" using assms(2,3) big by (auto simp: memsetFits_def)
    show "validate t memory ro = Inl (OutOfBounds (maxMemObjectsInQueue t))"
      using assms(2,3) len clear_False_overruns [OF assms(1) nofit]
      unfolding validate_def Let_def
      by (simp del: One_nat_def)
  }
qed

lemma validate_overflows_when_kernel_fills_array:
  assumes "wellFormed t" and "endMemObjectsInQueue t = 0"
    and "numMemObjectsInQueue t = maxMemObjectsInQueue t" and "0 < maxMemObjectsInQueue t"
  shows "validate t memory ro = Inl (OutOfBounds (maxMemObjectsInQueue t))"
proof -
  from assms have len: "length (memObjectsInQueue t) = maxMemObjectsInQueue t"
    by (simp add: wellFormed_def)
  have nofit: "\<not> memsetFits t" using assms(2,3,4) by (auto simp: memsetFits_def)
  show ?thesis
    using assms(2,3,4) len clear_False_overruns [OF assms(1) nofit]
    unfolding validate_def Let_def
    by (simp del: One_nat_def)
qed

lemma calls_append:
  "calls t (cs @ ds) = (case calls t cs of Inl e \<Rightarrow> Inl e | Inr t1 \<Rightarrow> calls t1 ds)"
  by (induction cs arbitrary: t) (auto split: sum.splits)

lemma tracker_overflows_for_every_capacity:
  assumes "0 < M" and "length xs = M"
  shows "calls (create M) (NewKernel # map (\<lambda>(m, ro). Validate m ro) (xs @ [(m', ro')]))
         = Inl (OutOfBounds M)"
proof -
  let ?V = "map (\<lambda>(m, ro). Validate m ro)"
  let ?t0 = "newKernel (create M)"
  have w0: "wellFormed ?t0" by (simp add: newKernel_wellFormed create_wellFormed)
  have e0: "endMemObjectsInQueue ?t0 = 0" "numMemObjectsInQueue ?t0 = 0"
    "maxMemObjectsInQueue ?t0 = M"
    using assms(1) by (simp_all add: newKernel_def create_def)
  from assms obtain ys y where xs: "xs = ys @ [y]" and ly: "length ys = M - 1"
    by (cases xs rule: rev_cases) auto
  obtain m ro where y: "y = (m, ro)" by (cases y)
  have "numMemObjectsInQueue ?t0 + length ys < maxMemObjectsInQueue ?t0"
    using e0 ly assms(1) by simp
  from validates_below_capacity [OF w0 e0(1) this]
  obtain t1 where r1: "calls ?t0 (?V ys) = Inr t1"
    and w1: "wellFormed t1" and e1: "endMemObjectsInQueue t1 = 0"
    and n1: "numMemObjectsInQueue t1 = M - 1" and m1: "maxMemObjectsInQueue t1 = M"
    using e0 ly by auto
  have at: "numMemObjectsInQueue t1 + 1 = maxMemObjectsInQueue t1"
    using n1 m1 assms(1) by simp
  have "calls t1 [Validate m ro, Validate m' ro'] = Inl (OutOfBounds M)"
  proof (cases "M \<le> 4")
    case True
    from validate_at_capacity [OF w1 e1 at, of m ro] True m1
    obtain t2 where v2: "validate t1 m ro = Inr (True, t2)" and w2: "wellFormed t2"
      and e2: "endMemObjectsInQueue t2 = 0" and n2: "numMemObjectsInQueue t2 = M"
      and m2: "maxMemObjectsInQueue t2 = M"
      by auto
    have "validate t2 m' ro' = Inl (OutOfBounds M)"
      using validate_overflows_when_kernel_fills_array [OF w2 e2, of m' ro'] n2 m2 assms(1)
      by simp
    with v2 show ?thesis by simp
  next
    case False
    then have "validate t1 m ro = Inl (OutOfBounds M)"
      using validate_at_capacity [OF w1 e1 at, of m ro] m1 by simp
    then show ?thesis by simp
  qed
  then show ?thesis
    using r1 unfolding xs y by (simp add: calls_append)
qed

lemma kernel_filling_array_overruns_in_clear:
  assumes "4 < M" and "length xs = M - 1"
  shows "calls (create M) (NewKernel # map (\<lambda>(m, ro). Validate m ro) (xs @ [(m', ro')]))
         = Inl (OutOfBounds M)"
proof -
  let ?V = "map (\<lambda>(m, ro). Validate m ro)"
  let ?t0 = "newKernel (create M)"
  have w0: "wellFormed ?t0" by (simp add: newKernel_wellFormed create_wellFormed)
  have e0: "endMemObjectsInQueue ?t0 = 0" "numMemObjectsInQueue ?t0 = 0"
    "maxMemObjectsInQueue ?t0 = M"
    using assms(1) by (simp_all add: newKernel_def create_def)
  have "numMemObjectsInQueue ?t0 + length xs < maxMemObjectsInQueue ?t0"
    using e0 assms by simp
  from validates_below_capacity [OF w0 e0(1) this]
  obtain t1 where r1: "calls ?t0 (?V xs) = Inr t1"
    and w1: "wellFormed t1" and e1: "endMemObjectsInQueue t1 = 0"
    and n1: "numMemObjectsInQueue t1 = M - 1" and m1: "maxMemObjectsInQueue t1 = M"
    using e0 assms(2) by auto
  have at: "numMemObjectsInQueue t1 + 1 = maxMemObjectsInQueue t1"
    using n1 m1 assms(1) by simp
  have "validate t1 m' ro' = Inl (OutOfBounds M)"
    using validate_at_capacity [OF w1 e1 at, of m' ro'] m1 assms(1) by simp
  then show ?thesis
    using r1 by (simp add: calls_append)
qed

text \<open>
  Claim C1 fails on the code. With capacity 5, a kernel that validates five buffers
  makes the fifth \<open>validate\<close> flush, because appending reaches the capacity;
  \<open>clear(false)\<close> keeps the four entries of the kernel being assembled, and its \<open>memset\<close>
  of four pointer-sized words from slot 4 of the five-slot array on writes one word past
  the end of the array, before the new range is appended. So not every call on a tracker
  created with positive capacity decides and then appends the new range.
\<close>

theorem validate_overruns_array_in_clear:
  "calls (create 5)
     [NewKernel,
      Validate \<lparr>hbOffset = 0, hbSize = 256\<rparr> False,
      Validate \<lparr>hbOffset = 4096, hbSize = 256\<rparr> True,
      Validate \<lparr>hbOffset = 8192, hbSize = 256\<rparr> True,
      Validate \<lparr>hbOffset = 12288, hbSize = 256\<rparr> True,
      Validate \<lparr>hbOffset = 16384, hbSize = 256\<rparr> True]
   = Inl (OutOfBounds 5)"
  using kernel_filling_array_overruns_in_clear
    [of 5 "[(\<lparr>hbOffset = 0, hbSize = 256\<rparr>, False), (\<lparr>hbOffset = 4096, hbSize = 256\<rparr>, True),
            (\<lparr>hbOffset = 8192, hbSize = 256\<rparr>, True), (\<lparr>hbOffset = 12288, hbSize = 256\<rparr>, True)]"
        "\<lparr>hbOffset = 16384, hbSize = 256\<rparr>" True]
  by simp

text \<open>
  Claim C2 fails on the code. With capacity 2, a kernel that validates three buffers
  makes the third \<open>validate\<close> write slot 2 of a two-slot array: the capacity check
  flushes, but \<open>clear(false)\<close> keeps the two entries of the kernel being assembled, so
  that its \<open>memset\<close> starts at slot 2, and the entry is inserted at slot 2 all the same,
  which would make the count 3.
\<close>

theorem tracker_overflows_within_one_kernel:
  "calls (create 2)
     [NewKernel,
      Validate \<lparr>hbOffset = 0, hbSize = 256\<rparr> False,
      Validate \<lparr>hbOffset = 4096, hbSize = 256\<rparr> True,
      Validate \<lparr>hbOffset = 8192, hbSize = 256\<rparr> True]
   = Inl (OutOfBounds 2)"
  using tracker_overflows_for_every_capacity
    [of 2 "[(\<lparr>hbOffset = 0, hbSize = 256\<rparr>, False), (\<lparr>hbOffset = 4096, hbSize = 256\<rparr>, True)]"
        "\<lparr>hbOffset = 8192, hbSize = 256\<rparr>" True]
  by simp

section \<open>Properties of the managed staging buffer\<close>

lemma alignedSize_dvd: "256 dvd spec_alignedSize sz"
  by (simp add: spec_alignedSize_def)

lemma alignUp_eq_spec:
  "alignUp sz MemAlignment = word_of_nat (spec_alignedSize sz)"
proof -
  have "unat sz + unat (256 :: 32 word) - 1 = unat sz + 255" by simp
  then show ?thesis
    unfolding alignUp_def MemAlignment_def spec_alignedSize_def
    by (simp add: add.commute [of "unat sz" 255])
qed

lemma unat_alignUp:
  assumes "spec_alignedSize sz < 2 ^ 32"
  shows "unat (alignUp sz MemAlignment) = spec_alignedSize sz"
  using assms by (simp add: alignUp_eq_spec unat_of_nat)

lemma alignUp_dvd: "256 dvd unat (alignUp sz MemAlignment)"
proof -
  have "unat (alignUp sz MemAlignment) = spec_alignedSize sz mod 2 ^ 32"
    by (simp add: alignUp_eq_spec unat_of_nat)
  moreover have "(256::nat) dvd 2 ^ 32" by simp
  ultimately show ?thesis
    using alignedSize_dvd [of sz] by (simp add: dvd_mod)
qed

lemma unat_cursor_add:
  assumes "unat (w :: 32 word) + spec_alignedSize sz < 2 ^ 32"
  shows "unat (w + alignUp sz MemAlignment) = unat w + spec_alignedSize sz"
proof -
  from assms have "spec_alignedSize sz < 2 ^ 32" by simp
  then have "unat (alignUp sz MemAlignment) = spec_alignedSize sz" by (rule unat_alignUp)
  then show ?thesis using assms by (simp add: unat_word_ariths)
qed



lemma reserve_rotates:
  assumes inv: "poolInvariant N mb"
    and nowrap: "unat (wrtOffset mb) + spec_alignedSize sz < 2 ^ 32"
    and over: "unat (wrtOffset mb) + spec_alignedSize sz > unat (sizeBytes mb)"
  shows "reserve N mb sz =
     (let active = (activeBuffer mb + 1) mod N; b = wait (buffers mb ! active) in
      Inr (data b, vmAddress b,
           mb\<lparr>activeBuffer := active, buffers := (buffers mb)[active := b],
              waited := waited mb @ [active], wrtAddress := data b,
              wrtOffset := alignUp sz MemAlignment\<rparr>))"
proof -
  have c: "wrtOffset mb + alignUp sz MemAlignment > sizeBytes mb"
    using over unat_cursor_add [OF nowrap] by (simp add: word_less_nat_alt)
  from inv have n: "0 < N" "length (buffers mb) = N" by (simp_all add: poolInvariant_def)
  then have a: "(activeBuffer mb + 1) mod N < length (buffers mb)" by simp
  show ?thesis
    using c n a unfolding reserve_def Let_def by simp
qed

lemma reserve_fits:
  assumes inv: "poolInvariant N mb"
    and nowrap: "unat (wrtOffset mb) + spec_alignedSize sz < 2 ^ 32"
    and fits: "unat (wrtOffset mb) + spec_alignedSize sz \<le> unat (sizeBytes mb)"
  shows "reserve N mb sz =
      Inr (wrtAddress mb + ucast (wrtOffset mb),
           vmAddress (buffers mb ! activeBuffer mb) + ucast (wrtOffset mb),
           mb\<lparr>wrtOffset := wrtOffset mb + alignUp sz MemAlignment\<rparr>)"
proof -
  have c: "\<not> wrtOffset mb + alignUp sz MemAlignment > sizeBytes mb"
    using fits unat_cursor_add [OF nowrap] by (simp add: word_less_nat_alt)
  from inv have a: "activeBuffer mb < length (buffers mb)" by (simp add: poolInvariant_def)
  show ?thesis
    using c a unfolding reserve_def Let_def by simp
qed

text \<open>
  The state between calls: established by the constructor and \<open>create\<close>, and kept by every
  \<open>reserve\<close>, which therefore always returns on such a pool.
\<close>

lemma newManagedBuffer_invariant:
  "slabs \<noteq> [] \<Longrightarrow> \<exists>mb. newManagedBuffer slabs sz = Inr mb \<and> poolInvariant (length slabs) mb
      \<and> wrtOffset mb = 0 \<and> sizeBytes mb = sz"
  by (cases slabs) (simp_all add: newManagedBuffer_def poolInvariant_def)

lemma reserve_preserves_invariant:
  assumes "poolInvariant N mb"
  shows "\<exists>cpu gpu mb'. reserve N mb sz = Inr (cpu, gpu, mb') \<and> poolInvariant N mb'"
proof -
  from assms have n: "0 < N" "length (buffers mb) = N" "activeBuffer mb < N"
    "wrtAddress mb = data (buffers mb ! activeBuffer mb)" "256 dvd unat (wrtOffset mb)"
    by (simp_all add: poolInvariant_def)
  let ?a = "(activeBuffer mb + 1) mod N"
  have a: "?a < N" using n(1) by simp
  have d1: "256 dvd unat (alignUp sz MemAlignment)" by (rule alignUp_dvd)
  have "unat (wrtOffset mb + alignUp sz MemAlignment) =
      (unat (wrtOffset mb) + unat (alignUp sz MemAlignment)) mod 2 ^ 32"
    by (simp add: unat_word_ariths)
  moreover have "(256::nat) dvd 2 ^ 32" by simp
  ultimately have d2: "256 dvd unat (wrtOffset mb + alignUp sz MemAlignment)"
    using n(5) d1 by (simp add: dvd_mod)
  show ?thesis
  proof (cases "wrtOffset mb + alignUp sz MemAlignment > sizeBytes mb")
    case True
    have "reserve N mb sz =
      Inr (data (wait (buffers mb ! ?a)), vmAddress (wait (buffers mb ! ?a)),
           mb\<lparr>activeBuffer := ?a, buffers := (buffers mb)[?a := wait (buffers mb ! ?a)],
              waited := waited mb @ [?a], wrtAddress := data (wait (buffers mb ! ?a)),
              wrtOffset := alignUp sz MemAlignment\<rparr>)"
      unfolding reserve_def Let_def using True n(1,2) a by simp
    moreover have "poolInvariant N
          (mb\<lparr>activeBuffer := ?a, buffers := (buffers mb)[?a := wait (buffers mb ! ?a)],
              waited := waited mb @ [?a], wrtAddress := data (wait (buffers mb ! ?a)),
              wrtOffset := alignUp sz MemAlignment\<rparr>)"
      unfolding poolInvariant_def using n(1,2) a d1 by simp
    ultimately show ?thesis by blast
  next
    case False
    have "reserve N mb sz =
      Inr (wrtAddress mb + ucast (wrtOffset mb),
           vmAddress (buffers mb ! activeBuffer mb) + ucast (wrtOffset mb),
           mb\<lparr>wrtOffset := wrtOffset mb + alignUp sz MemAlignment\<rparr>)"
      unfolding reserve_def Let_def using False n(2,3) by simp
    moreover have "poolInvariant N (mb\<lparr>wrtOffset := wrtOffset mb + alignUp sz MemAlignment\<rparr>)"
      unfolding poolInvariant_def using n d2 by simp
    ultimately show ?thesis by blast
  qed
qed

text \<open>
  Where the 32-bit sum does not wrap around, \<open>reserve\<close> rotates exactly when the slab is
  full. On a pool in its state between calls, when the cursor plus the 256-byte-aligned
  size does not overflow 32 bits: if that sum exceeds the slab capacity,
  \<open>reserve\<close> moves to slab \<open>(active + 1) mod N\<close>, calls \<open>wait\<close> on it (no earlier GPU
  work stays recorded on it), returns the base addresses of that slab, and leaves the cursor
  at the aligned size; otherwise the active slab, the slabs and the list of waits are
  unchanged and the cursor advances by the aligned size.
\<close>

lemma reserve_rotates_iff_full:
  assumes inv: "poolInvariant N mb"
    and nowrap: "unat (wrtOffset mb) + spec_alignedSize sz < 2 ^ 32"
  shows "\<exists>cpu gpu mb'. reserve N mb sz = Inr (cpu, gpu, mb') \<and>
     (if unat (wrtOffset mb) + spec_alignedSize sz > unat (sizeBytes mb)
      then activeBuffer mb' = (activeBuffer mb + 1) mod N \<and>
           waited mb' = waited mb @ [activeBuffer mb'] \<and>
           buffers mb' = (buffers mb)
             [activeBuffer mb' := (buffers mb ! activeBuffer mb')\<lparr>busy := False\<rparr>] \<and>
           \<not> busy (buffers mb' ! activeBuffer mb') \<and>
           cpu = data (buffers mb ! activeBuffer mb') \<and>
           gpu = vmAddress (buffers mb ! activeBuffer mb') \<and>
           unat (wrtOffset mb') = spec_alignedSize sz
      else activeBuffer mb' = activeBuffer mb \<and>
           waited mb' = waited mb \<and>
           buffers mb' = buffers mb \<and>
           unat (wrtOffset mb') = unat (wrtOffset mb) + spec_alignedSize sz)"
proof (cases "unat (wrtOffset mb) + spec_alignedSize sz > unat (sizeBytes mb)")
  case True
  from inv have n: "0 < N" "length (buffers mb) = N" by (simp_all add: poolInvariant_def)
  then have a: "(activeBuffer mb + 1) mod N < length (buffers mb)" by simp
  from nowrap have "spec_alignedSize sz < 2 ^ 32" by simp
  then have u: "unat (alignUp sz MemAlignment) = spec_alignedSize sz" by (rule unat_alignUp)
  show ?thesis
    using True a u reserve_rotates [OF inv nowrap True]
    by (simp add: Let_def wait_def)
next
  case False
  then have fits: "unat (wrtOffset mb) + spec_alignedSize sz \<le> unat (sizeBytes mb)" by simp
  show ?thesis
    using False reserve_fits [OF inv nowrap fits] unat_cursor_add [OF nowrap]
    by simp
qed

text \<open>
  For example, with 256 bytes left in a 4 KiB slab, reserving 300 bytes (aligned: 512)
  rotates from slab 0 to slab 1 and waits on it.
\<close>

lemma reserve_rotates_iff_full_example:
  "\<exists>cpu gpu mb'. reserve 3 smallPool 300 = Inr (cpu, gpu, mb') \<and>
     activeBuffer mb' = 1 \<and> waited mb' = [1] \<and> \<not> busy (buffers mb' ! 1) \<and>
     cpu = 0x7100000 \<and> gpu = 0x200000 \<and> unat (wrtOffset mb') = 512"
  using reserve_rotates_iff_full [of 3 smallPool 300]
  by (auto simp: poolInvariant_def smallPool_def threeSlabs_def spec_alignedSize_def)

text \<open>
  Claim C3 fails on the code where the 32-bit sum of the space check wraps around. On a
  fresh pool with slabs of \<open>0xFFFFFF00\<close> bytes a first reservation of \<open>0xFFFFFE00\<close> bytes
  leaves the cursor at \<open>0xFFFFFE00\<close>; reserving 512 bytes then exceeds the capacity, but
  \<open>wrtOffset_ + count\<close> wraps to 0, so \<open>reserve\<close> neither rotates nor waits and hands out
  the address at the old cursor; the cursor becomes 0 instead of advancing by 512.
\<close>

theorem reserve_no_rotation_on_overflow:
  "reserve 3 freshHugePool 0xFFFFFE00 = Inr (0x7000000, 0x100000, hugePool) \<and>
   reserve 3 hugePool 512 =
     Inr (0x7000000 + 0xFFFFFE00, 0x100000 + 0xFFFFFE00, hugePool\<lparr>wrtOffset := 0\<rparr>) \<and>
   unat (wrtOffset hugePool) + spec_alignedSize 512 > unat (sizeBytes hugePool)"
  by (simp add: freshHugePool_def reserve_def hugePool_def alignUp_def MemAlignment_def Let_def
      threeSlabs_def spec_alignedSize_def)


text \<open>
  With slabs smaller than \<open>2 ^ 31\<close> bytes the space check cannot wrap around and every
  reservation stays inside its slab. On a pool in its state between calls, with such slabs
  and the cursor inside the slab, a reservation whose aligned size is at
  most the slab capacity returns a CPU address and a GPU address at the same offset from
  the mapping and the GPU base of the active slab; the offset is a multiple of 256 and the
  reserved bytes end inside the slab. The state afterwards is again one between calls, with
  the cursor at the end of the reservation.
\<close>

lemma reserve_stays_inside_slab:
  assumes inv: "poolInvariant N mb"
    and cursor: "unat (wrtOffset mb) \<le> unat (sizeBytes mb)"
    and small: "unat (sizeBytes mb) < 2 ^ 31"
    and fits: "spec_alignedSize sz \<le> unat (sizeBytes mb)"
  shows "\<exists>cpu gpu mb' off. reserve N mb sz = Inr (cpu, gpu, mb') \<and>
     cpu = data (buffers mb ! activeBuffer mb') + ucast (off :: 32 word) \<and>
     gpu = vmAddress (buffers mb ! activeBuffer mb') + ucast off \<and>
     data (buffers mb' ! activeBuffer mb') = data (buffers mb ! activeBuffer mb') \<and>
     vmAddress (buffers mb' ! activeBuffer mb') = vmAddress (buffers mb ! activeBuffer mb') \<and>
     256 dvd unat off \<and>
     unat off + spec_alignedSize sz \<le> unat (sizeBytes mb) \<and>
     unat (wrtOffset mb') = unat off + spec_alignedSize sz \<and>
     sizeBytes mb' = sizeBytes mb \<and>
     poolInvariant N mb'"
proof -
  have nowrap: "unat (wrtOffset mb) + spec_alignedSize sz < 2 ^ 32"
    using cursor small fits by simp
  from nowrap have "spec_alignedSize sz < 2 ^ 32" by simp
  then have u: "unat (alignUp sz MemAlignment) = spec_alignedSize sz" by (rule unat_alignUp)
  from inv have n: "0 < N" "length (buffers mb) = N" "activeBuffer mb < N"
    "wrtAddress mb = data (buffers mb ! activeBuffer mb)" "256 dvd unat (wrtOffset mb)"
    by (simp_all add: poolInvariant_def)
  show ?thesis
  proof (cases "unat (wrtOffset mb) + spec_alignedSize sz > unat (sizeBytes mb)")
    case True
    let ?a = "(activeBuffer mb + 1) mod N"
    have a: "?a < length (buffers mb)" using n by simp
    have d: "256 dvd unat (alignUp sz MemAlignment)" by (rule alignUp_dvd)
    show ?thesis
      using reserve_rotates [OF inv nowrap True] a n(1,2) u fits d
      by (intro exI [of _ "data (buffers mb ! ?a)"] exI [of _ "vmAddress (buffers mb ! ?a)"]
          exI [of _ "mb\<lparr>activeBuffer := ?a,
              buffers := (buffers mb)[?a := wait (buffers mb ! ?a)],
              waited := waited mb @ [?a], wrtAddress := data (wait (buffers mb ! ?a)),
              wrtOffset := alignUp sz MemAlignment\<rparr>"] exI [of _ 0])
        (simp add: Let_def wait_def poolInvariant_def)
  next
    case False
    then have f: "unat (wrtOffset mb) + spec_alignedSize sz \<le> unat (sizeBytes mb)" by simp
    have d: "256 dvd unat (wrtOffset mb + alignUp sz MemAlignment)"
      using unat_cursor_add [OF nowrap] n(5) alignedSize_dvd [of sz] by simp
    show ?thesis
      using reserve_fits [OF inv nowrap f] n f d unat_cursor_add [OF nowrap]
      by (intro exI [of _ "wrtAddress mb + ucast (wrtOffset mb)"]
          exI [of _ "vmAddress (buffers mb ! activeBuffer mb) + ucast (wrtOffset mb)"]
          exI [of _ "mb\<lparr>wrtOffset := wrtOffset mb + alignUp sz MemAlignment\<rparr>"]
          exI [of _ "wrtOffset mb"])
        (simp add: poolInvariant_def)
  qed
qed

text \<open>
  For example, reserving 200 bytes in a 4 KiB slab of a three-slab pool with the cursor at
  3840.
\<close>

lemma reserve_stays_inside_slab_example:
  "\<exists>cpu gpu mb' off. reserve 3 smallPool 200 = Inr (cpu, gpu, mb') \<and>
     cpu = data (threeSlabs ! activeBuffer mb') + ucast (off :: 32 word) \<and>
     gpu = vmAddress (threeSlabs ! activeBuffer mb') + ucast off \<and>
     256 dvd unat off \<and> unat off + 256 \<le> (4096 :: nat) \<and> poolInvariant 3 mb'"
proof -
  have "poolInvariant 3 smallPool"
    by (simp add: poolInvariant_def smallPool_def threeSlabs_def)
  moreover have "unat (wrtOffset smallPool) \<le> unat (sizeBytes smallPool)"
    "unat (sizeBytes smallPool) < 2 ^ 31" "spec_alignedSize 200 \<le> unat (sizeBytes smallPool)"
    "spec_alignedSize 200 = 256" "buffers smallPool = threeSlabs"
    "unat (sizeBytes smallPool) = 4096"
    by (simp_all add: smallPool_def spec_alignedSize_def)
  ultimately show ?thesis
    using reserve_stays_inside_slab [of 3 smallPool 200] by fastforce
qed

text \<open>
  Claim C10 fails on the code for slabs of \<open>0xFFFFFF00\<close> bytes: after a first reservation
  of \<open>0xFFFFFE00\<close> bytes on a fresh pool, a reservation of 512 bytes (at most the
  capacity) stays in the same slab at offset \<open>0xFFFFFE00\<close>, because the 32-bit sum of
  cursor and size in the space check wraps to 0, and its last 256 bytes lie beyond the
  slab.
\<close>

theorem reserve_past_slab_end_on_overflow:
  "newManagedBuffer threeSlabs 0xFFFFFF00 = Inr freshHugePool \<and>
   reserve 3 freshHugePool 0xFFFFFE00 = Inr (0x7000000, 0x100000, hugePool) \<and>
   spec_alignedSize 512 \<le> unat (sizeBytes hugePool) \<and>
   reserve 3 hugePool 512 =
     Inr (data (buffers hugePool ! 0) + ucast (0xFFFFFE00 :: 32 word),
          vmAddress (buffers hugePool ! 0) + ucast (0xFFFFFE00 :: 32 word),
          hugePool\<lparr>wrtOffset := 0\<rparr>) \<and>
   \<not> unat (0xFFFFFE00 :: 32 word) + spec_alignedSize 512 \<le> unat (sizeBytes hugePool)"
  by (simp add: newManagedBuffer_def freshHugePool_def reserve_def hugePool_def alignUp_def
      MemAlignment_def Let_def threeSlabs_def spec_alignedSize_def)

section \<open>Properties of batch resolution and flush\<close>

lemma completeCommands_spec:
  "completeCommands cs w =
     (map completeOne cs,
      map (\<lambda>c. UnexpectedCommandStatus (status c)) (filter unexpectedStatus (butlast cs)),
      \<exists>c \<in> set cs. w = Some (cmdId c))"
proof (induction cs)
  case Nil
  show ?case by simp
next
  case (Cons c cs)
  show ?case
    unfolding completeCommands.simps Cons.IH
    by (auto simp: completeOne_def unexpectedStatus_def [of c])
qed

lemma completeOne_status:
  "status (completeOne c) =
     (if status c = CL_SUBMITTED \<or> status c = CL_RUNNING then CL_COMPLETE else status c)"
  by (simp add: completeOne_def setStatus_def CL_SUBMITTED_def CL_RUNNING_def CL_COMPLETE_def)

lemma completeOne_id: "cmdId (completeOne c) = cmdId c"
  by (simp add: completeOne_def setStatus_def)

lemma completeOne_unchanged:
  "status c \<noteq> CL_SUBMITTED \<Longrightarrow> status c \<noteq> CL_RUNNING \<Longrightarrow> completeOne c = c"
  by (simp add: completeOne_def)

lemma setStatus_le: "status (setStatus c s) \<le> status c"
  by (simp add: setStatus_def)

lemma awaitCompletion_spec:
  assumes "\<not> profilingEnabled (head cb)"
  shows "awaitCompletion cb w =
     (\<exists>c \<in> set (commandsAtWalk cb). w = Some (cmdId c),
      \<lparr>resolvedCommands = map completeOne (commandsAtWalk cb),
       waitedEvents = events cb,
       logged = map (\<lambda>c. UnexpectedCommandStatus (status c))
                  (filter unexpectedStatus (butlast (commandsAtWalk cb)))\<rparr>)"
  using assms
  unfolding awaitCompletion_def Let_def commandsAtWalk_def completeCommands_spec
  by simp


text \<open>
  Claim C5, as amended. In non-profiled resolution, \<open>awaitCompletion\<close> waits for the
  events of the batch and keeps every command of the list, in order. No status regresses
  (the codes never increase). A command that the walk finds submitted or running ends
  complete; any other command is left exactly as found; and for every command except the
  last of the list that is found in a status other than submitted, running or complete,
  the error is logged. The log holds exactly these reports, in list order.
\<close>

theorem awaitCompletion_completes_and_reports:
  assumes "\<not> profilingEnabled (head cb)"
  shows "waitedEvents (snd (awaitCompletion cb w)) = events cb \<and>
     length (resolvedCommands (snd (awaitCompletion cb w))) = length (commandsAtWalk cb) \<and>
     (\<forall>i < length (commandsAtWalk cb).
        cmdId (resolvedCommands (snd (awaitCompletion cb w)) ! i) =
          cmdId ((head cb # followers cb) ! i) \<and>
        status (resolvedCommands (snd (awaitCompletion cb w)) ! i)
          \<le> status ((head cb # followers cb) ! i) \<and>
        (status ((head cb # followers cb) ! i) = CL_SUBMITTED \<or>
         status ((head cb # followers cb) ! i) = CL_RUNNING \<longrightarrow>
           status (resolvedCommands (snd (awaitCompletion cb w)) ! i) = CL_COMPLETE) \<and>
        (status (commandsAtWalk cb ! i) = CL_SUBMITTED \<or>
         status (commandsAtWalk cb ! i) = CL_RUNNING \<longrightarrow>
           status (resolvedCommands (snd (awaitCompletion cb w)) ! i) = CL_COMPLETE) \<and>
        (status (commandsAtWalk cb ! i) \<noteq> CL_SUBMITTED \<and>
         status (commandsAtWalk cb ! i) \<noteq> CL_RUNNING \<longrightarrow>
           resolvedCommands (snd (awaitCompletion cb w)) ! i = commandsAtWalk cb ! i) \<and>
        (unexpectedStatus (commandsAtWalk cb ! i) \<and> Suc i < length (commandsAtWalk cb) \<longrightarrow>
           UnexpectedCommandStatus (status (commandsAtWalk cb ! i))
             \<in> set (logged (snd (awaitCompletion cb w))))) \<and>
     logged (snd (awaitCompletion cb w)) =
       map (\<lambda>c. UnexpectedCommandStatus (status c))
         (filter unexpectedStatus (butlast (commandsAtWalk cb)))"
proof -
  let ?before = "commandsAtWalk cb"
  let ?orig = "head cb # followers cb"
  have r: "snd (awaitCompletion cb w) =
      \<lparr>resolvedCommands = map completeOne ?before, waitedEvents = events cb,
       logged = map (\<lambda>c. UnexpectedCommandStatus (status c))
                  (filter unexpectedStatus (butlast ?before))\<rparr>"
    using awaitCompletion_spec [OF assms, of w] by simp
  have len: "length ?before = length ?orig" by (simp add: commandsAtWalk_def)
  have per: "cmdId (completeOne (?before ! i)) = cmdId (?orig ! i) \<and>
        status (completeOne (?before ! i)) \<le> status (?orig ! i) \<and>
        (status (?orig ! i) = CL_SUBMITTED \<or> status (?orig ! i) = CL_RUNNING \<longrightarrow>
           status (completeOne (?before ! i)) = CL_COMPLETE) \<and>
        (status (?before ! i) = CL_SUBMITTED \<or> status (?before ! i) = CL_RUNNING \<longrightarrow>
           status (completeOne (?before ! i)) = CL_COMPLETE) \<and>
        (status (?before ! i) \<noteq> CL_SUBMITTED \<and> status (?before ! i) \<noteq> CL_RUNNING \<longrightarrow>
           completeOne (?before ! i) = ?before ! i) \<and>
        (unexpectedStatus (?before ! i) \<and> Suc i < length ?before \<longrightarrow>
           UnexpectedCommandStatus (status (?before ! i))
             \<in> set (map (\<lambda>c. UnexpectedCommandStatus (status c))
                      (filter unexpectedStatus (butlast ?before))))"
    if i: "i < length ?before" for i
  proof -
    have b_le: "status (?before ! i) \<le> status (?orig ! i)"
      by (cases i) (simp_all add: commandsAtWalk_def setStatus_le)
    have b_id: "cmdId (?before ! i) = cmdId (?orig ! i)"
      by (cases i) (simp_all add: commandsAtWalk_def setStatus_def)
    have b_run: "status (?before ! i) = CL_SUBMITTED \<or> status (?before ! i) = CL_RUNNING"
      if "status (?orig ! i) = CL_SUBMITTED \<or> status (?orig ! i) = CL_RUNNING"
      using that
      by (cases i) (auto simp: commandsAtWalk_def setStatus_def CL_SUBMITTED_def
          CL_RUNNING_def CL_COMPLETE_def)
    have c_le: "status (completeOne (?before ! i)) \<le> status (?before ! i)"
      by (simp add: completeOne_status CL_SUBMITTED_def CL_RUNNING_def CL_COMPLETE_def)
    have in_log: "?before ! i \<in> set (butlast ?before)" if "Suc i < length ?before"
    proof -
      from that have "i < length (butlast ?before)" by simp
      then have "butlast ?before ! i \<in> set (butlast ?before)" by (rule nth_mem)
      moreover have "butlast ?before ! i = ?before ! i"
        using that by (simp add: nth_butlast)
      ultimately show ?thesis by simp
    qed
    show ?thesis
      using b_le b_id c_le in_log b_run
      by (auto simp: completeOne_id completeOne_status completeOne_unchanged)
  qed
  show ?thesis
    unfolding r using per by simp
qed

text \<open>
  Claim C5, witness: a batch of a submitted command, a failed command and another
  submitted command. The failed command in the middle is reported and keeps its status.
\<close>

theorem awaitCompletion_completes_and_reports_witness:
  "snd (awaitCompletion batchWithFailedMiddle None) =
     \<lparr>resolvedCommands =
        [\<lparr>cmdId = 1, status = CL_COMPLETE, profilingEnabled = False\<rparr>,
         failedCmd 2,
         \<lparr>cmdId = 3, status = CL_COMPLETE, profilingEnabled = False\<rparr>],
      waitedEvents = [doneEvent, noEvent],
      logged = [UnexpectedCommandStatus CL_INVALID_OPERATION]\<rparr>"
proof -
  have p: "\<not> profilingEnabled (head batchWithFailedMiddle)"
    by (simp add: batchWithFailedMiddle_def submittedCmd_def)
  have w: "commandsAtWalk batchWithFailedMiddle =
      [\<lparr>cmdId = 1, status = CL_RUNNING, profilingEnabled = False\<rparr>, failedCmd 2, submittedCmd 3]"
    by (simp add: commandsAtWalk_def batchWithFailedMiddle_def submittedCmd_def setStatus_def
        CL_SUBMITTED_def CL_RUNNING_def CL_COMPLETE_def)
  have u: "unexpectedStatus (failedCmd 2)" "\<not> unexpectedStatus (submittedCmd 3)"
    "\<not> unexpectedStatus \<lparr>cmdId = 1, status = CL_RUNNING, profilingEnabled = False\<rparr>"
    by (simp_all add: unexpectedStatus_def failedCmd_def submittedCmd_def CL_SUBMITTED_def
        CL_RUNNING_def CL_COMPLETE_def CL_INVALID_OPERATION_def)
  let ?r = "snd (awaitCompletion batchWithFailedMiddle None)"
  from awaitCompletion_completes_and_reports [OF p, of None]
  have ev: "waitedEvents ?r = events batchWithFailedMiddle"
    and len: "length (resolvedCommands ?r) = 3"
    and lg: "logged ?r = [UnexpectedCommandStatus (status (failedCmd 2))]"
    and per: "\<forall>i<3.
        cmdId (resolvedCommands ?r ! i) =
          cmdId ((head batchWithFailedMiddle # followers batchWithFailedMiddle) ! i) \<and>
        (status (commandsAtWalk batchWithFailedMiddle ! i) = CL_SUBMITTED \<or>
         status (commandsAtWalk batchWithFailedMiddle ! i) = CL_RUNNING \<longrightarrow>
           status (resolvedCommands ?r ! i) = CL_COMPLETE) \<and>
        (status (commandsAtWalk batchWithFailedMiddle ! i) \<noteq> CL_SUBMITTED \<and>
         status (commandsAtWalk batchWithFailedMiddle ! i) \<noteq> CL_RUNNING \<longrightarrow>
           resolvedCommands ?r ! i = commandsAtWalk batchWithFailedMiddle ! i)"
    unfolding w using u by simp_all
  show ?thesis
    using p ev len lg per
    by (simp add: awaitCompletion_def batchWithFailedMiddle_def submittedCmd_def failedCmd_def
        setStatus_def Let_def CL_SUBMITTED_def CL_RUNNING_def CL_COMPLETE_def
        CL_INVALID_OPERATION_def)
qed

text \<open>
  Claim C5 as stated fails for the last command of the list: for a batch of a submitted
  command followed by a command whose submission failed (status
  \<open>CL_INVALID_OPERATION\<close>), the last branch of the walk requires a successor, so nothing is
  logged for the failed command, and it does not end complete.
\<close>

theorem awaitCompletion_ignores_failed_last_command:
  "awaitCompletion batchWithFailedLast None =
     (False,
      \<lparr>resolvedCommands =
         [\<lparr>cmdId = 1, status = CL_COMPLETE, profilingEnabled = False\<rparr>,
          \<lparr>cmdId = 2, status = CL_INVALID_OPERATION, profilingEnabled = False\<rparr>],
       waitedEvents = [doneEvent, noEvent],
       logged = []\<rparr>) \<and>
   CL_INVALID_OPERATION \<noteq> CL_COMPLETE"
  by (simp add: awaitCompletion_def batchWithFailedLast_def submittedCmd_def failedCmd_def
      setStatus_def Let_def CL_SUBMITTED_def CL_RUNNING_def CL_COMPLETE_def
      CL_INVALID_OPERATION_def)

lemma resolveOutstanding_spec:
  "resolveOutstanding isDone b cbs =
     (if b then [] else dropWhile (batchFinished isDone) cbs,
      map resolutionOf (if b then cbs else takeWhile (batchFinished isDone) cbs))"
  by (induction cbs) (simp_all add: batchFinished_def resolutionOf_def Let_def)

lemma flush_spec:
  "flush isDone list blocking s =
     s\<lparr>cal_events := map invalidate (cal_events s), cal_lastTS := None,
       cbList := drop (length (flushResolved isDone list blocking s)) (batchesAtFlush list s),
       resolved := resolved s @ map resolutionOf (flushResolved isDone list blocking s),
       forceWait := False\<rparr>"
  unfolding flush_def Let_def flushResolved_def batchesAtFlush_def resolveOutstanding_spec
  by (cases list) (auto simp: dropWhile_eq_drop)

lemma flushResolved_prefix:
  "flushResolved isDone list blocking s @
     drop (length (flushResolved isDone list blocking s)) (batchesAtFlush list s)
   = batchesAtFlush list s"
  unfolding flushResolved_def
  by (simp add: dropWhile_eq_drop [symmetric])

lemma flushResolved_take:
  "flushResolved isDone list blocking s =
     take (length (flushResolved isDone list blocking s)) (batchesAtFlush list s)"
  unfolding flushResolved_def
  by (simp add: takeWhile_eq_take [symmetric])

lemma flush_then_blocking:
  "flush isDone2 [] True (flush isDone1 list blocking s) = flush isDone3 list True s"
proof -
  let ?r = "flushResolved isDone1 list blocking s"
  let ?all = "batchesAtFlush list s"
  have a: "flushResolved isDone3 list True s = ?all" by (simp add: flushResolved_def)
  have "map resolutionOf ?r @ map resolutionOf (drop (length ?r) ?all) = map resolutionOf ?all"
    using flushResolved_prefix [of isDone1 list blocking s]
    by (metis map_append)
  then show ?thesis
    unfolding flush_spec [of isDone2] flush_spec [of isDone1] flush_spec [of isDone3] a
    by (simp add: flushResolved_def batchesAtFlush_def invalidate_def comp_def)
qed

text \<open>
  Claim C4. \<open>flush\<close> resolves a prefix of the FIFO (the outstanding batches followed by
  the batch of the current list) in FIFO order, and leaves the rest in the FIFO in the same
  order: the resolutions appended are those of the first \<open>k\<close> batches, one after the
  other. When asked to wait, \<open>k\<close> is the whole FIFO; on the early path it is the longest
  prefix of finished batches. Each batch is resolved by the same \<open>awaitCompletion\<close> on
  either path, and a blocking flush after an early flush leaves the same state, command
  statuses included, as a blocking flush in the first place, whatever the hardware answers.
\<close>

theorem flush_resolves_in_fifo_order:
  "(\<exists>k \<le> length (batchesAtFlush list s).
      resolved (flush isDone list blocking s) =
        resolved s @ map resolutionOf (take k (batchesAtFlush list s)) \<and>
      cbList (flush isDone list blocking s) = drop k (batchesAtFlush list s) \<and>
      (blocking \<longrightarrow> k = length (batchesAtFlush list s)) \<and>
      (\<not> blocking \<and> \<not> forceWait s \<and> (list_ex isValid (cal_events s) \<or> cbList s \<noteq> []) \<longrightarrow>
         take k (batchesAtFlush list s) =
           takeWhile (batchFinished isDone) (batchesAtFlush list s))) \<and>
   flush isDone2 [] True (flush isDone list blocking s) = flush isDone3 list True s"
proof -
  let ?r = "flushResolved isDone list blocking s"
  let ?all = "batchesAtFlush list s"
  have le: "length ?r \<le> length ?all"
    using flushResolved_prefix [of isDone list blocking s]
    by (metis le_add1 length_append)
  have tk: "take (length ?r) ?all = ?r"
    using flushResolved_take [of isDone list blocking s] by simp
  have bl: "blocking \<longrightarrow> length ?r = length ?all"
    by (simp add: flushResolved_def)
  have nb: "\<not> blocking \<and> \<not> forceWait s \<and> (list_ex isValid (cal_events s) \<or> cbList s \<noteq> []) \<longrightarrow>
         take (length ?r) ?all = takeWhile (batchFinished isDone) ?all"
    unfolding tk by (auto simp: flushResolved_def)
  have "resolved (flush isDone list blocking s) = resolved s @ map resolutionOf (take (length ?r) ?all) \<and>
      cbList (flush isDone list blocking s) = drop (length ?r) ?all"
    unfolding tk by (simp add: flush_spec)
  with le bl nb show ?thesis
    using flush_then_blocking [of isDone2 isDone list blocking s isDone3]
    by (intro conjI exI [of _ "length ?r"]) blast+
qed

text \<open>
  Claim C4, witness: two outstanding batches, the first finished and the second not. The
  early flush resolves the first only; a blocking flush afterwards ends as a blocking
  flush at once.
\<close>

theorem flush_resolves_in_fifo_order_witness:
  "(\<exists>k \<le> 2.
      resolved (flush doneBelow10 [] False queueTwoBatches)
        = map resolutionOf (take k [batchA, batchB]) \<and>
      cbList (flush doneBelow10 [] False queueTwoBatches) = drop k [batchA, batchB] \<and>
      take k [batchA, batchB] = [batchA]) \<and>
   flush doneBelow10 [] True (flush doneBelow10 [] False queueTwoBatches)
     = flush doneBelow10 [] True queueTwoBatches"
proof -
  have all: "batchesAtFlush [] queueTwoBatches = [batchA, batchB]"
    by (simp add: batchesAtFlush_def queueTwoBatches_def)
  have fin: "batchFinished doneBelow10 batchA" "\<not> batchFinished doneBelow10 batchB"
    by (simp_all add: batchFinished_def batchA_def batchB_def doneBelow10_def doneEvent_def
        pendingEvent_def noEvent_def)
  have st: "\<not> forceWait queueTwoBatches" "cbList queueTwoBatches \<noteq> []"
    "resolved queueTwoBatches = []"
    by (simp_all add: queueTwoBatches_def)
  show ?thesis
    using flush_resolves_in_fifo_order
      [of "[]" queueTwoBatches doneBelow10 False doneBelow10 doneBelow10]
    unfolding all using st fin by (auto simp: numeral_2_eq_2)
qed

text \<open>
  Claim C8, as amended. With an empty command list, no valid per-engine event and an
  empty FIFO, \<open>flush\<close> resolves nothing (so it never waits), leaves the FIFO empty and the
  events as they are, and on exit the last timestamp object is null and the force-wait flag
  is false; a second such flush changes nothing more.
\<close>

theorem flush_idle_queue:
  assumes "\<not> list_ex isValid (cal_events s)" and "cbList s = []"
  shows "flush isDone [] blocking s = s\<lparr>cal_lastTS := None, forceWait := False\<rparr> \<and>
     flush isDone2 [] blocking2 (flush isDone [] blocking s) = flush isDone [] blocking s"
proof -
  have ev: "map invalidate (cal_events s) = cal_events s"
    using assms(1)
    by (induction "cal_events s" arbitrary: s) (auto simp: isValid_def invalidate_def list_ex_iff map_idI)
  have a: "batchesAtFlush [] s = []" using assms(2) by (simp add: batchesAtFlush_def)
  have f: "flush isDone [] blocking s = s\<lparr>cal_lastTS := None, forceWait := False\<rparr>"
    unfolding flush_spec flushResolved_def a using ev assms(2) by simp
  have a2: "batchesAtFlush [] (s\<lparr>cal_lastTS := None, forceWait := False\<rparr>) = []"
    using assms(2) by (simp add: batchesAtFlush_def)
  have "flush isDone2 [] blocking2 (s\<lparr>cal_lastTS := None, forceWait := False\<rparr>)
      = s\<lparr>cal_lastTS := None, forceWait := False\<rparr>"
    unfolding flush_spec flushResolved_def a2 using ev assms(2) by simp
  with f show ?thesis by simp
qed

text \<open>
  Claim C8, witness: on an idle queue with the flag false and no timestamp object, flush
  is the identity, once or twice.
\<close>

theorem flush_idle_queue_witness:
  "flush allDone [] False idleQueue = idleQueue \<and>
   flush allDone [] True (flush allDone [] False idleQueue) = flush allDone [] False idleQueue"
proof -
  have h: "\<not> list_ex isValid (cal_events idleQueue)" "cbList idleQueue = []"
    by (simp_all add: idleQueue_def noEvent_def isValid_def)
  have i: "idleQueue\<lparr>cal_lastTS := None, forceWait := False\<rparr> = idleQueue"
    by (simp add: idleQueue_def)
  show ?thesis
    using flush_idle_queue [OF h, of allDone False allDone True] unfolding i by auto
qed

text \<open>
  Claim C8 as stated fails for the force-wait flag: \<open>submitMarker\<close> with a waiting event
  on an idle queue sets the flag; the queue still has no valid event and an empty FIFO, and
  an empty flush then clears the flag, so the flag on exit differs from the flag on entry.
\<close>

theorem flush_resets_forceWait:
  "submitMarker (Some 7) idleQueue = idleQueue\<lparr>forceWait := True\<rparr> \<and>
   \<not> list_ex isValid (cal_events (idleQueue\<lparr>forceWait := True\<rparr>)) \<and>
   cbList (idleQueue\<lparr>forceWait := True\<rparr>) = [] \<and>
   flush allDone [] False (idleQueue\<lparr>forceWait := True\<rparr>) = idleQueue \<and>
   forceWait (flush allDone [] False (idleQueue\<lparr>forceWait := True\<rparr>))
     \<noteq> forceWait (idleQueue\<lparr>forceWait := True\<rparr>)"
  by (simp add: submitMarker_def flush_def idleQueue_def noEvent_def isValid_def invalidate_def
      Let_def)

section \<open>Properties of command submission\<close>































text \<open>
  A lookup of device memory that returns a null pointer is dereferenced without a test:
  \<open>submitReadMemory\<close> for a source without device memory does not return normally.
\<close>

lemma submitReadMemory_null_dereference:
  "\<not> gpuMemory (readSource vcmd) \<Longrightarrow> submit dev (Read vcmd) c s = Inl NullDereference"
  by (simp add: submitReadMemory_def Let_def)

lemma submitReadMemory_null_dereference_example:
  "submit workingDevice (Read foreignRead) (submittedCmd 1) idleQueue = Inl NullDereference"
  using submitReadMemory_null_dereference [of foreignRead]
  by (simp add: foreignRead_def foreignBuffer_def)




lemma scheduler_only_on_other_ring:
  "RunScheduler r \<in> set (snd (submitKernelInternalHSA k)) \<Longrightarrow>
     r \<noteq> hwRing k \<and> dynamicParallelism k \<and> defQueueRing k = Some r"
  unfolding submitKernelInternalHSA_def Let_def
  by (auto split: if_splits option.splits bool.splits)

text \<open>
  Claim C9. For a kernel that uses device-side enqueue, if the default device queue is on
  the hardware ring of the submitting queue, \<open>submitKernelInternalHSA\<close> returns \<open>false\<close>,
  so \<open>submitKernel\<close> records \<open>CL_INVALID_OPERATION\<close>, and neither the parent kernel nor the
  scheduler is dispatched. Whenever the scheduler is run, it is on the ring of the default
  device queue, which differs from the ring of the submitting queue.
\<close>

theorem same_ring_launch_fails:
  "(dynamicParallelism k \<and> defQueueRing k = Some (hwRing k) \<longrightarrow>
      \<not> fst (submitKernelInternalHSA k) \<and>
      \<not> submitKernelInternal (Hsa k) \<and>
      submitKernel (Hsa k) c = setStatus c CL_INVALID_OPERATION \<and>
      (\<forall>r. RunScheduler r \<notin> set (snd (submitKernelInternalHSA k))) \<and>
      (\<forall>r. RunAqlDispatch r \<notin> set (snd (submitKernelInternalHSA k)))) \<and>
   (\<forall>r. RunScheduler r \<in> set (snd (submitKernelInternalHSA k)) \<longrightarrow>
      r \<noteq> hwRing k \<and> dynamicParallelism k \<and> defQueueRing k = Some r)"
proof -
  have a: "\<not> fst (submitKernelInternalHSA k) \<and>
      (\<forall>r. RunScheduler r \<notin> set (snd (submitKernelInternalHSA k))) \<and>
      (\<forall>r. RunAqlDispatch r \<notin> set (snd (submitKernelInternalHSA k)))"
    if "dynamicParallelism k" "defQueueRing k = Some (hwRing k)"
    using that unfolding submitKernelInternalHSA_def Let_def by auto
  then have b: "\<not> submitKernelInternal (Hsa k) \<and>
      submitKernel (Hsa k) c = setStatus c CL_INVALID_OPERATION"
    if "dynamicParallelism k" "defQueueRing k = Some (hwRing k)"
    using that by (simp add: submitKernelInternal_def submitKernel_def)
  show ?thesis
    using a b scheduler_only_on_other_ring [of _ k] by blast
qed

text \<open>
  Claim C9, witness: a launch with the device queue on ring 0, the ring of the host queue,
  fails before any dispatch; with the device queue on ring 1 the parent is dispatched on
  ring 0 and the scheduler on ring 1.
\<close>

theorem same_ring_launch_fails_witness:
  "\<not> fst (submitKernelInternalHSA sameRingLaunch) \<and>
   submitKernel (Hsa sameRingLaunch) (submittedCmd 1) =
     \<lparr>cmdId = 1, status = CL_INVALID_OPERATION, profilingEnabled = False\<rparr> \<and>
   snd (submitKernelInternalHSA sameRingLaunch) =
     [ProcessMemObjects,
      LogError ''Can't submit the child kernels to the same HW ring as the host queue!''] \<and>
   snd (submitKernelInternalHSA otherRingLaunch) =
     [ProcessMemObjects, WriteVQueueHeader, RunAqlDispatch 0, RunScheduler 1,
      VirtualQueueHandshake, SetGpuEvent]"
proof -
  have h: "dynamicParallelism sameRingLaunch \<and> defQueueRing sameRingLaunch = Some (hwRing sameRingLaunch)"
    by (simp add: sameRingLaunch_def)
  have s: "setStatus (submittedCmd 1) CL_INVALID_OPERATION =
       \<lparr>cmdId = 1, status = CL_INVALID_OPERATION, profilingEnabled = False\<rparr>"
    by (simp add: setStatus_def submittedCmd_def CL_SUBMITTED_def CL_COMPLETE_def
        CL_INVALID_OPERATION_def)
  show ?thesis
    using same_ring_launch_fails [of sameRingLaunch "submittedCmd 1"] h s
    by (simp add: submitKernelInternalHSA_def sameRingLaunch_def otherRingLaunch_def Let_def)
qed

end
